theory Spec2Isabelle
  imports Complex_Main "HOL-Library.Multiset" "HOL-Library.Sublist"
    "HOL-Library.Char_ord" "HOL-Library.List_Lexorder"
begin

section \<open>Values, messages and exceptions\<close>

text \<open>
  A message is a Python dict from field names to values. It is kept as an association
  list in insertion order (the order in which a dict comprehension visits the items);
  a dict never holds a key twice. The values a flat message carries are modelled by the
  scalar kinds below. A float is kept as the real number it stands for (the tables of
  schema.py and the examples use whole-number literals only; no float arithmetic is done).
\<close>

datatype pyval = PNone | PBool bool | PInt int | PFloat real | PStr string

type_synonym msg = "(string \<times> pyval) list"

text \<open>
  The exceptions the code raises or catches. \<open>BaseExc\<close> stands for the exceptions that do
  not derive from \<open>Exception\<close> (KeyboardInterrupt, SystemExit), which the handlers
  \<open>except Exception\<close> of core.py do not catch.
\<close>

datatype exn =
    StopIteration
  | IOError string
  | NameError string
  | KeyError string
  | TypeError string
  | ValueError string
  | AttributeError string
  | IndexError string
  | BaseExc string

fun is_Exception :: "exn \<Rightarrow> bool" where
  "is_Exception (BaseExc _) = False"
| "is_Exception _ = True"

datatype 'a outcome = Returns 'a | Raises exn

section \<open>The wrapped codec\<close>

text \<open>
  \<open>GPSDIOStream\<close> wraps an object of a container driver (gpsdio.drivers, outside core.py).
  core.py uses three things of it: \<open>next(self._stream)\<close>, \<open>self._stream.write(msg)\<close> and
  the attribute \<open>closed\<close>. The codec is the list of what its successive pulls do (a raw
  record, or an exception), the messages written so far, and what a write of a given
  message raises, if anything. A pull from an exhausted codec raises StopIteration.
\<close>

datatype pull = Rec msg | Fail exn

record codec =
  pending :: "pull list"
  written :: "msg list"
  rejects :: "msg \<Rightarrow> exn option"
  c_closed :: bool

fun codec_next :: "codec \<Rightarrow> (exn + msg) \<times> codec" where
  "codec_next c =
     (case pending c of
        [] \<Rightarrow> (Inl StopIteration, c)
      | Rec m # rest \<Rightarrow> (Inr m, c\<lparr>pending := rest\<rparr>)
      | Fail e # rest \<Rightarrow> (Inl e, c\<lparr>pending := rest\<rparr>))"

fun codec_write :: "codec \<Rightarrow> msg \<Rightarrow> exn option \<times> codec" where
  "codec_write c m =
     (case rejects c m of
        Some e \<Rightarrow> (Some e, c)
      | None \<Rightarrow> (None, c\<lparr>written := written c @ [m]\<rparr>))"

section \<open>Field coercion on read and write\<close>

text \<open>
  core.py looks the coercion functions up in \<open>schema.schema_import_functions\<close> and
  \<open>schema.schema_export_functions\<close>. Neither table is defined in schema.py, so the table
  is a parameter here: a map from field name to a function that returns the coerced
  value or raises. \<open>coerce\<close> is the dict comprehension
  \<open>{fld: table.get(fld, lambda x: x)(v) for fld, v in six.iteritems(msg)}\<close>:
  an unknown field passes through, the first raise aborts the comprehension.
\<close>

type_synonym coercions = "string \<Rightarrow> (pyval \<Rightarrow> exn + pyval) option"

fun coerce :: "coercions \<Rightarrow> msg \<Rightarrow> exn + msg" where
  "coerce tab [] = Inr []"
| "coerce tab ((fld, v) # rest) =
     (case (case tab fld of None \<Rightarrow> Inr v | Some f \<Rightarrow> f v) of
        Inl e \<Rightarrow> Inl e
      | Inr v' \<Rightarrow> (case coerce tab rest of Inl e \<Rightarrow> Inl e | Inr r \<Rightarrow> Inr ((fld, v') # r)))"

section \<open>GPSDIOStream\<close>

record GPSDIOStream =
  stream :: codec
  skip_failures :: bool
  mode :: string
  convert :: bool

definition GPSDIOStream_init :: "codec \<Rightarrow> string \<Rightarrow> bool \<Rightarrow> bool \<Rightarrow> GPSDIOStream" where
  "GPSDIOStream_init c md cv sk =
     \<lparr>stream = c, skip_failures = sk, mode = md, convert = cv\<rparr>"

definition closed :: "GPSDIOStream \<Rightarrow> bool" where
  "closed s = c_closed (stream s)"

text \<open>
  \<open>__next__\<close> returns its outcome, the exceptions it passed to \<open>logger.exception\<close>, and the
  stream afterwards. \<open>Returns None\<close> is Python's \<open>None\<close>: the function falls off its end
  when a failure is swallowed.
\<close>

definition next_handler ::
  "GPSDIOStream \<Rightarrow> exn \<Rightarrow> msg option outcome \<times> exn list \<times> GPSDIOStream" where
  "next_handler s e =
     (if e = StopIteration then (Raises e, [], s)
      else if is_Exception e then
        (if \<not> skip_failures s then (Raises e, [e], s) else (Returns None, [e], s))
      else (Raises e, [], s))"

definition stream_next ::
  "coercions \<Rightarrow> GPSDIOStream \<Rightarrow> msg option outcome \<times> exn list \<times> GPSDIOStream" where
  "stream_next imp s =
     (if mode s \<noteq> ''r'' then (Raises (IOError ''Stream not open for reading''), [], s)
      else if closed s then (Raises (IOError ''Can't operate on a closed stream''), [], s)
      else
        (case codec_next (stream s) of
           (Inl e, c') \<Rightarrow> next_handler (s\<lparr>stream := c'\<rparr>) e
         | (Inr m, c') \<Rightarrow>
             (if convert s then
                (case coerce imp m of
                   Inl e \<Rightarrow> next_handler (s\<lparr>stream := c'\<rparr>) e
                 | Inr m' \<Rightarrow> (Returns (Some m'), [], s\<lparr>stream := c'\<rparr>))
              else (Returns (Some m), [], s\<lparr>stream := c'\<rparr>))))"

definition write_handler ::
  "GPSDIOStream \<Rightarrow> exn \<Rightarrow> unit outcome \<times> exn list \<times> GPSDIOStream" where
  "write_handler s e =
     (if is_Exception e then
        (if \<not> skip_failures s then (Raises e, [e], s) else (Returns (), [e], s))
      else (Raises e, [], s))"

definition stream_write ::
  "coercions \<Rightarrow> GPSDIOStream \<Rightarrow> msg \<Rightarrow> unit outcome \<times> exn list \<times> GPSDIOStream" where
  "stream_write out_tab s m =
     (if mode s \<noteq> ''w'' \<and> mode s \<noteq> ''a'' then
        (Raises (IOError ''Stream not open for writing''), [], s)
      else if closed s then (Raises (IOError ''Can't operate on a closed stream''), [], s)
      else
        (case (if convert s then coerce out_tab m else Inr m) of
           Inl e \<Rightarrow> write_handler s e
         | Inr m' \<Rightarrow>
             (case codec_write (stream s) m' of
                (Some e, c') \<Rightarrow> write_handler (s\<lparr>stream := c'\<rparr>) e
              | (None, c') \<Rightarrow> (Returns (), [], s\<lparr>stream := c'\<rparr>))))"

text \<open>
  Iterating a stream (\<open>for msg in stream\<close>) calls \<open>__next__\<close> until it raises. The loop
  yields every returned value, \<open>None\<close> included, and ends with the exception raised:
  StopIteration is the normal end of the loop, anything else reaches the caller. Every
  call that returns has consumed one pull of the codec, so the loop ends.
\<close>

lemma stream_next_shrinks:
  "stream_next imp s = (Returns x, lg, s') \<Longrightarrow>
     length (pending (stream s')) < length (pending (stream s))"
  by (auto simp: stream_next_def next_handler_def split: if_splits list.splits pull.splits sum.splits prod.splits)

function iterate ::
  "coercions \<Rightarrow> GPSDIOStream \<Rightarrow> msg option list \<times> exn \<times> exn list \<times> GPSDIOStream" where
  "iterate imp s =
     (case stream_next imp s of
        (Raises e, lg, s') \<Rightarrow> ([], e, lg, s')
      | (Returns x, lg, s') \<Rightarrow>
          (case iterate imp s' of (xs, e, lg', s'') \<Rightarrow> (x # xs, e, lg @ lg', s'')))"
  by pat_completeness auto

termination
  by (relation "measure (\<lambda>(imp, s). length (pending (stream s)))")
     (auto dest: stream_next_shrinks [OF sym])

declare iterate.simps [simp del]

text \<open>The messages among the values a loop received: everything but the \<open>None\<close>s.\<close>

fun messages :: "msg option list \<Rightarrow> msg list" where
  "messages [] = []"
| "messages (None # xs) = messages xs"
| "messages (Some m # xs) = m # messages xs"

text \<open>
  A pull is well-formed when it delivers a record that coercion accepts, and \<open>decoded\<close> is
  the message the stream then returns. A pull is malformed with \<open>e\<close> when the pull itself
  or the coercion of its record raises \<open>e\<close>, an \<open>Exception\<close> other than StopIteration.
\<close>

definition good :: "coercions \<Rightarrow> bool \<Rightarrow> pull \<Rightarrow> bool" where
  "good imp cv p =
     (case p of
        Rec m \<Rightarrow> (if cv then (case coerce imp m of Inr _ \<Rightarrow> True | Inl _ \<Rightarrow> False) else True)
      | Fail _ \<Rightarrow> False)"

definition decoded :: "coercions \<Rightarrow> bool \<Rightarrow> pull \<Rightarrow> msg" where
  "decoded imp cv p =
     (case p of
        Rec m \<Rightarrow> (if cv then (case coerce imp m of Inr m' \<Rightarrow> m' | Inl _ \<Rightarrow> []) else m)
      | Fail _ \<Rightarrow> [])"

definition malformed :: "coercions \<Rightarrow> bool \<Rightarrow> pull \<Rightarrow> exn \<Rightarrow> bool" where
  "malformed imp cv p e =
     (e \<noteq> StopIteration \<and> is_Exception e \<and>
      (case p of
         Fail e' \<Rightarrow> e' = e
       | Rec m \<Rightarrow> cv \<and> coerce imp m = Inl e))"

definition with_pending :: "GPSDIOStream \<Rightarrow> pull list \<Rightarrow> GPSDIOStream" where
  "with_pending s ps = s\<lparr>stream := (stream s)\<lparr>pending := ps\<rparr>\<rparr>"


text \<open>
  A concrete source for the examples: three records of which the second carries an
  \<open>mmsi\<close> that a strict integer coercion refuses.
\<close>

definition strict_int :: "pyval \<Rightarrow> exn + pyval" where
  "strict_int v = (case v of PInt i \<Rightarrow> Inr (PInt i) | _ \<Rightarrow> Inl (ValueError ''not an integer''))"

definition demo_codec :: codec where
  "demo_codec =
     \<lparr>pending = [Rec [(''mmsi'', PInt 1)], Rec [(''mmsi'', PStr ''x'')], Rec [(''mmsi'', PInt 2)]],
      written = [], rejects = (\<lambda>_. None), c_closed = False\<rparr>"


section \<open>The open factory\<close>

text \<open>
  The target of \<open>open\<close> is a path (a string) or an already-open file-like object. Of a
  file-like object the factory reads only the attribute \<open>name\<close>, which may be missing
  (\<open>getattr(path, 'name', None)\<close>).
\<close>

datatype fileobj = Stdin | Stdout | FileObj "string option"

fun name_attr :: "fileobj \<Rightarrow> string option" where
  "name_attr Stdin = Some ''<stdin>''"
| "name_attr Stdout = Some ''<stdout>''"
| "name_attr (FileObj n) = n"

datatype target = Path string | FileLike fileobj

text \<open>
  What the container driver is handed: the target itself, or the handle \<open>'b\<close> that a
  compression driver made of it.
\<close>

datatype 'b c_stream = Raw target | Wrapped 'b

type_synonym options = "(string \<times> pyval) list"

type_synonym 'b comp_driver = "target \<Rightarrow> string \<Rightarrow> options \<Rightarrow> exn + 'b"

type_synonym 'b io_driver = "'b c_stream \<Rightarrow> string \<Rightarrow> options \<Rightarrow> exn + codec"

text \<open>
  The four names that \<open>open\<close> imports from gpsdio.drivers, a module that is not among the
  sources at hand; they are parameters. A driver is called with the handle, the mode and
  the options, and returns what it opened or raises. \<open>detect_compression_type\<close> may return
  a value that is not a driver (\<open>None\<close>): \<open>open\<close> tests the result for truth.
\<close>

record 'b drivers =
  detect_compression_type :: "string \<Rightarrow> exn + 'b comp_driver option"
  detect_file_type :: "string option \<Rightarrow> exn + 'b io_driver"
  registered_compression :: "string \<Rightarrow> 'b comp_driver option"
  registered_drivers :: "string \<Rightarrow> 'b io_driver option"

text \<open>Truth of an optional string argument: \<open>None\<close> and the empty string are false.\<close>

fun given :: "string option \<Rightarrow> string option" where
  "given None = None"
| "given (Some s) = (if s = [] then None else Some s)"

definition lookup_driver :: "(string \<Rightarrow> 'd option) \<Rightarrow> string \<Rightarrow> exn + 'd" where
  "lookup_driver registry nm = (case registry nm of None \<Rightarrow> Inl (KeyError nm) | Some d \<Rightarrow> Inr d)"

text \<open>
  The first lines of \<open>open\<close>: \<open>-\<close> stands for standard input when the mode contains \<open>r\<close>,
  for standard output when it contains \<open>w\<close> or \<open>a\<close>.
\<close>

definition stdio_target :: "target \<Rightarrow> string \<Rightarrow> target" where
  "stdio_target path md =
     (if path = Path ''-'' \<and> CHR ''r'' \<in> set md then FileLike Stdin
      else if path = Path ''-'' \<and> (CHR ''w'' \<in> set md \<or> CHR ''a'' \<in> set md) then FileLike Stdout
      else path)"

text \<open>
  \<open>choose_io_driver\<close> is the statement that both branches of \<open>open\<close> start with:
  \<open>registered_drivers[driver]\<close> if a driver is named, else \<open>detect_file_type\<close> of the
  name (the path, or the attribute \<open>name\<close> of the file-like object).
\<close>

definition choose_io_driver :: "'b drivers \<Rightarrow> string option \<Rightarrow> string option \<Rightarrow> exn + 'b io_driver" where
  "choose_io_driver drv driver nm =
     (case given driver of
        Some d \<Rightarrow> lookup_driver (registered_drivers drv) d
      | None \<Rightarrow> detect_file_type drv nm)"

text \<open>
  The two branches that choose the drivers. For a file-like object the compression
  driver is the one asked for, or none: nothing is detected. For a path the compression
  driver is the one asked for, or the one detected, or none when the detection raises
  ValueError; any other exception of the detection leaves \<open>open\<close>.
\<close>

definition choose_drivers ::
  "'b drivers \<Rightarrow> target \<Rightarrow> string option \<Rightarrow> string option \<Rightarrow>
   exn + ('b io_driver \<times> 'b comp_driver option)" where
  "choose_drivers drv path compression driver =
     (case path of
        FileLike f \<Rightarrow>
          (case choose_io_driver drv driver (name_attr f) of
             Inl e \<Rightarrow> Inl e
           | Inr io_driver \<Rightarrow>
               (case given compression of
                  Some c \<Rightarrow>
                    (case lookup_driver (registered_compression drv) c of
                       Inl e \<Rightarrow> Inl e
                     | Inr cd \<Rightarrow> Inr (io_driver, Some cd))
                | None \<Rightarrow> Inr (io_driver, None)))
      | Path p \<Rightarrow>
          (case choose_io_driver drv driver (Some p) of
             Inl e \<Rightarrow> Inl e
           | Inr io_driver \<Rightarrow>
               (case given compression of
                  Some c \<Rightarrow>
                    (case lookup_driver (registered_compression drv) c of
                       Inl e \<Rightarrow> Inl e
                     | Inr cd \<Rightarrow> Inr (io_driver, Some cd))
                | None \<Rightarrow>
                    (case detect_compression_type drv p of
                       Inl (ValueError _) \<Rightarrow> Inr (io_driver, None)
                     | Inl e \<Rightarrow> Inl e
                     | Inr cd \<Rightarrow> Inr (io_driver, cd)))))"

text \<open>
  \<open>make_c_stream\<close> is what \<open>open\<close> hands to the container driver: the target wrapped by
  the compression driver when there is one, the target itself otherwise. \<open>open_stream\<close>
  is the end of \<open>open\<close>: the container driver opens the handle and the result is wrapped
  in a \<open>GPSDIOStream\<close>.
\<close>

definition make_c_stream ::
  "'b comp_driver option \<Rightarrow> target \<Rightarrow> string \<Rightarrow> options \<Rightarrow> exn + 'b c_stream" where
  "make_c_stream comp_driver path cmode co =
     (case comp_driver of
        Some cd \<Rightarrow> (case cd path cmode co of Inl e \<Rightarrow> Inl e | Inr h \<Rightarrow> Inr (Wrapped h))
      | None \<Rightarrow> Inr (Raw path))"

definition open_stream ::
  "'b io_driver \<Rightarrow> 'b c_stream \<Rightarrow> string \<Rightarrow> string \<Rightarrow> options \<Rightarrow> bool \<Rightarrow> bool \<Rightarrow> exn + GPSDIOStream" where
  "open_stream io_driver c_stream md dmode do cv sk =
     (case io_driver c_stream dmode do of
        Inl e \<Rightarrow> Inl e
      | Inr st \<Rightarrow> Inr (GPSDIOStream_init st md cv sk))"

text \<open>\<open>x or y\<close> on the optional arguments of \<open>open\<close>.\<close>

definition mode_or :: "string option \<Rightarrow> string \<Rightarrow> string" where
  "mode_or m md = (case given m of None \<Rightarrow> md | Some m' \<Rightarrow> m')"

definition options_or :: "options option \<Rightarrow> options" where
  "options_or opts = (case opts of None \<Rightarrow> [] | Some d \<Rightarrow> d)"

definition gpsdio_open ::
  "'b drivers \<Rightarrow> target \<Rightarrow> string \<Rightarrow> string option \<Rightarrow> string option \<Rightarrow> string option \<Rightarrow>
   string option \<Rightarrow> options option \<Rightarrow> options option \<Rightarrow> bool \<Rightarrow> bool \<Rightarrow> exn + GPSDIOStream" where
  "gpsdio_open drv path0 md dmode cmode compression driver do co cv sk =
     (let path = stdio_target path0 md
      in case choose_drivers drv path compression driver of
           Inl e \<Rightarrow> Inl e
         | Inr (io_driver, comp_driver) \<Rightarrow>
             (case make_c_stream comp_driver path (mode_or cmode md) (options_or co) of
                Inl e \<Rightarrow> Inl e
              | Inr c_stream \<Rightarrow>
                  open_stream io_driver c_stream md (mode_or dmode md) (options_or do) cv sk))"

text \<open>The name that the detection of the container driver looks at.\<close>

fun target_name :: "target \<Rightarrow> string option" where
  "target_name (Path p) = Some p"
| "target_name (FileLike f) = name_attr f"

text \<open>
  Drivers for the examples: a gzip driver detected from the suffix \<open>.gz\<close> (the detection
  raises ValueError on any other name), and a container driver that opens every handle
  and delivers one record telling what it was handed.
\<close>

definition gzip_driver :: "string comp_driver" where
  "gzip_driver path cmode co = Inr ''gzip''"

definition json_driver :: "string io_driver" where
  "json_driver c_stream dmode do =
     Inr \<lparr>pending = [Rec [(''handed'', (case c_stream of Raw _ \<Rightarrow> PStr ''raw'' | Wrapped h \<Rightarrow> PStr h))]],
          written = [], rejects = (\<lambda>_. None), c_closed = False\<rparr>"

definition demo_drivers :: "string drivers" where
  "demo_drivers =
     \<lparr>detect_compression_type =
        (\<lambda>p. if suffix ''.gz'' p then Inr (Some gzip_driver)
             else Inl (ValueError ''no compression driver'')),
      detect_file_type = (\<lambda>n. Inr json_driver),
      registered_compression = [''GZIP'' \<mapsto> gzip_driver],
      registered_drivers = [''NewlineJSON'' \<mapsto> json_driver]\<rparr>"

section \<open>The schema tables (schema.py)\<close>

text \<open>
  Python dicts keep insertion order; a dict is an association list with each key once.
  \<open>dict_set\<close> is \<open>d[k] = v\<close>: an existing key keeps its place, a new key goes last.
\<close>

fun dict_set :: "'k \<Rightarrow> 'v \<Rightarrow> ('k \<times> 'v) list \<Rightarrow> ('k \<times> 'v) list" where
  "dict_set k v [] = [(k, v)]"
| "dict_set k v ((k', v') # rest) =
     (if k = k' then (k, v) # rest else (k', v') # dict_set k v rest)"

text \<open>
  A field definition is a dict of attributes (\<open>validate\<close>, \<open>units\<close>, \<open>description\<close>,
  \<open>default\<close>, \<open>name\<close>). The validators are objects of gpsdio.validate, which is not part
  of the sources at hand: a validator is kept as the constructor call that the table
  writes, arguments in order (\<open>FloatRange\<close> with its keyword \<open>include_max\<close> when given), and
  is never run. The validator \<open>Int()\<close> is written \<open>Int'\<close>.
\<close>

datatype pytype = NoneType | IntType | FloatType | StringTypes

datatype validator =
    Int'
  | IntRange "int list"
  | IntIn "int list"
  | Float
  | FloatRange "int list" "bool option"
  | In "pyval list"
  | Instance "pytype list"
  | DateTime
  | Any "validator list"

datatype attr = Validator validator | Value pyval

type_synonym fielddef = "(string \<times> attr) list"

text \<open>The table \<open>_FIELDS\<close>, entry by entry as schema.py writes it.\<close>

definition FIELDS :: "(string \<times> fielddef) list" where
  "FIELDS = [
    (''type'',
      [(''validate'', Validator Int'),
       (''units'', Value (PStr ''N/A'')),
       (''description'', Value (PStr ''Message type - dictates the message schema.  This value is normally 1 - 27 (with 28 - 63 reserved) but gpsdio only enforces type to allow users to define their own message types.  It is advisable to stay out of the active and reserved ranges.''))]),
    (''repeat'',
      [(''validate'', Validator (IntRange [0, 3])),
       (''units'', Value (PStr ''N/A'')),
       (''description'', Value (PStr ''A directive to an AIS transceiver that this message should be rebroadcast.  Intended as a way of getting AIS messages around hills and other obstructions in coastal waters, but is little used as base station coverage is more effective.  It is intended that the bit be incremented on each retransmission, to a maximum of 3 hops.  A value of 3 indicates 'Do not repeat'.'')),
       (''default'', Value (PInt 0))]),
    (''mmsi'',
      [(''validate'', Validator (Any [Int', Instance [NoneType]])),
       (''units'', Value (PStr ''N/A'')),
       (''description'', Value (PStr ''Mobile Marine Service Identifier.  The official AIVDM spec requires MMSI values to be 9 digits, but gpsdio only enforces type to support non-AIS data sources and analysis of invalid values.'')),
       (''default'', Value (PNone))]),
    (''status'',
      [(''validate'', Validator (IntRange [0, 15])),
       (''units'', Value (PStr ''N/A'')),
       (''description'', Value (PStr ''Navigation status.'')),
       (''default'', Value (PInt 15))]),
    (''turn'',
      [(''validate'', Validator (Instance [IntType, FloatType])),
       (''units'', Value (PStr ''Degrees / minute'')),
       (''description'', Value (PStr ''TODO: Finish.'')),
       (''default'', Value (PInt 128))]),
    (''speed'',
      [(''validate'', Validator (Any [FloatRange [0, 102] None, In [PFloat 1022, PFloat 1023]])),
       (''units'', Value (PStr ''knots'')),
       (''description'', Value (PStr ''Speed over ground is in 0.1-knot resolution from 0 to 102 knots. Value 1023 indicates speed is not available, value 1022 indicates 102.2 knots or higher.'')),
       (''default'', Value (PFloat 1023))]),
    (''accuracy'',
      [(''validate'', Validator (IntIn [0, 1])),
       (''description'', Value (PStr ''The position accuracy flag indicates the accuracy of the fix. A value of 1 indicates a DGPS-quality fix with an accuracy of < 10ms. 0, the default, indicates an unaugmented GNSS fix with accuracy > 10m.'')),
       (''default'', Value (PInt 0))]),
    (''lon'',
      [(''validate'', Validator Float),
       (''units'', Value (PStr ''WGS84 degrees'')),
       (''description'', Value (PStr ''East/West coordinate in WGS84 degrees.  Special value '181' indicates not available.  Would normally be constrained to -180/180 but some interesting tracks can appear out of bounds.'')),
       (''default'', Value (PFloat 181))]),
    (''lat'',
      [(''validate'', Validator Float),
       (''units'', Value (PStr ''WGS84 degrees'')),
       (''description'', Value (PStr ''North/South coordinate in WGS84 degrees.  Special value '91' indicates not available.  Would normally be constrained to -90/90 but some interesting tracks can appear out of bounds.'')),
       (''default'', Value (PFloat 91))]),
    (''course'',
      [(''validate'', Validator (Any [FloatRange [0, 360] (Some False), In [PFloat 3600]])),
       (''units'', Value (PStr ''degrees'')),
       (''description'', Value (PStr ''Course over ground - degrees from true north to 0.1 degree precision'')),
       (''default'', Value (PFloat 3600))]),
    (''heading'',
      [(''validate'', Validator (Any [IntRange [0, 359], IntIn [511]])),
       (''units'', Value (PStr ''degrees'')),
       (''description'', Value (PStr ''True heading - degrees from north'')),
       (''default'', Value (PInt 511))]),
    (''second'',
      [(''validate'', Validator (IntRange [0, 60])),
       (''units'', Value (PStr ''N/A'')),
       (''description'', Value (PStr ''UTC second.'')),
       (''default'', Value (PInt 60))]),
    (''maneuver'',
      [(''validate'', Validator (IntIn [0, 1, 2])),
       (''units'', Value (PStr ''N/A'')),
       (''description'', Value (PStr ''Indicates whether a special maneuver is in progress.'')),
       (''default'', Value (PInt 0))]),
    (''raim'',
      [(''validate'', Validator (IntIn [0, 1])),
       (''units'', Value (PStr ''N/A'')),
       (''description'', Value (PStr ''The RAIM flag indicates whether Receiver Autonomous Integrity Monitoring is being used to check the performance of the EPFD.'')),
       (''default'', Value (PInt 0))]),
    (''regional'',
      [(''validate'', Validator Int'),
       (''units'', Value (PStr ''N/A'')),
       (''description'', Value (PStr ''Intended for use by local maritime authorities.'')),
       (''default'', Value (PInt 0))]),
    (''radio'',
      [(''validate'', Validator Int'),
       (''units'', Value (PStr ''N/A'')),
       (''description'', Value (PStr ''Diagnostic information for the radio system.'')),
       (''default'', Value (PInt 0))]),
    (''year'',
      [(''validate'', Validator (IntRange [0, 9999])),
       (''units'', Value (PStr ''N/A'')),
       (''description'', Value (PStr ''UTC year.'')),
       (''default'', Value (PInt 0))]),
    (''month'',
      [(''validate'', Validator (IntRange [0, 12])),
       (''units'', Value (PStr ''N/A'')),
       (''description'', Value (PStr ''UTC month.'')),
       (''default'', Value (PInt 0))]),
    (''day'',
      [(''validate'', Validator (IntRange [0, 31])),
       (''units'', Value (PStr ''N/A'')),
       (''description'', Value (PStr ''UTC day.'')),
       (''default'', Value (PInt 0))]),
    (''hour'',
      [(''validate'', Validator (IntRange [0, 23])),
       (''units'', Value (PStr ''N/A'')),
       (''description'', Value (PStr ''UTC hour.'')),
       (''default'', Value (PInt 0))]),
    (''minute'',
      [(''validate'', Validator (IntRange [0, 60])),
       (''units'', Value (PStr ''N/A'')),
       (''description'', Value (PStr ''UTC minute.'')),
       (''default'', Value (PInt 60))]),
    (''epfd'',
      [(''validate'', Validator (IntRange [0, 15])),
       (''units'', Value (PStr ''N/A'')),
       (''description'', Value (PStr ''Equivalent Power-Flux Density.'')),
       (''default'', Value (PInt 0))]),
    (''ais_version'',
      [(''validate'', Validator (IntIn [0, 1, 2, 3])),
       (''units'', Value (PStr ''N/A'')),
       (''description'', Value (PStr ''Version of AIS broadcast.  Currently only ITU1371.'')),
       (''default'', Value (PInt 0))]),
    (''imo'',
      [(''validate'', Validator (Any [Int', Instance [NoneType]])),
       (''units'', Value (PStr ''N/A'')),
       (''description'', Value (PStr ''Ship ID number.'')),
       (''default'', Value (PNone))]),
    (''callsign'',
      [(''validate'', Validator (Instance [NoneType, StringTypes])),
       (''units'', Value (PStr ''N/A'')),
       (''description'', Value (PStr ''Vessel callsign'')),
       (''default'', Value (PNone))]),
    (''shiptype'',
      [(''validate'', Validator (IntRange [0, 99])),
       (''units'', Value (PStr ''N/A'')),
       (''description'', Value (PStr ''Vessel type.  Value maps to a description.'')),
       (''default'', Value (PInt 0))]),
    (''to_bow'',
      [(''validate'', Validator (IntRange [0])),
       (''units'', Value (PStr ''meters'')),
       (''description'', Value (PStr ''Distance from the AIS transponder to the bow of the vessel in meters.  The special value '511' indicates 511 meters or greater.  Negative values are accepted.'')),
       (''default'', Value (PInt 0))]),
    (''to_stern'',
      [(''validate'', Validator (IntRange [0])),
       (''units'', Value (PStr ''meters'')),
       (''description'', Value (PStr ''Distance from the AIS transponder to the stern of the vessel in meters.  The special value '511' indicates 511 meters or greater.  Negative values are accepted.'')),
       (''default'', Value (PInt 0))]),
    (''to_port'',
      [(''validate'', Validator (IntRange [0])),
       (''units'', Value (PStr ''meters'')),
       (''description'', Value (PStr ''Distance from the AIS transponder to the port side of the vessel in meters.  The special value '63' indicates 63 meters or greater.  Negative values are accepted.'')),
       (''default'', Value (PInt 0))]),
    (''to_starboard'',
      [(''validate'', Validator (IntRange [0])),
       (''units'', Value (PStr ''meters'')),
       (''description'', Value (PStr ''Distance from the AIS transponder to the pstarboard ort side of the vessel in meters.  The special value '63' indicates 63 meters or greater.'')),
       (''default'', Value (PInt 0))]),
    (''draught'',
      [(''validate'', Validator (FloatRange [0] None)),
       (''units'', Value (PStr ''decimeters'')),
       (''description'', Value (PStr ''Vessel draught in meters.'')),
       (''default'', Value (PFloat 0))]),
    (''dte'',
      [(''validate'', Validator (IntIn [0, 1])),
       (''units'', Value (PStr ''N/A'')),
       (''description'', Value (PStr ''TODO: Need a description.'')),
       (''default'', Value (PInt 1))]),
    (''seqno'',
      [(''validate'', Validator (IntIn [0, 1, 2, 3])),
       (''units'', Value (PStr ''N/A'')),
       (''description'', Value (PStr ''TODO: description'')),
       (''default'', Value (PInt 0))]),
    (''dest_mmsi'',
      [(''validate'', Validator (Any [Int', Instance [NoneType]])),
       (''units'', Value (PStr ''N/A'')),
       (''description'', Value (PStr ''Message is asking for a response from this MMSI.'')),
       (''default'', Value (PNone))]),
    (''retransmit'',
      [(''validate'', Validator (IntIn [0, 1])),
       (''units'', Value (PStr ''N/A'')),
       (''description'', Value (PStr ''If True, the message was re-broadcast by an intermediary station.'')),
       (''default'', Value (PInt 0))]),
    (''dac'',
      [(''validate'', Validator (IntRange [0])),
       (''units'', Value (PStr ''N/A'')),
       (''description'', Value (PStr ''Designated Area Code / jurisdiction code.'')),
       (''default'', Value (PInt 0))]),
    (''fid'',
      [(''validate'', Validator (IntRange [0])),
       (''units'', Value (PStr ''N/A'')),
       (''description'', Value (PStr ''Functional ID.  Sometimes abbreviated as FI.'')),
       (''default'', Value (PInt 0))]),
    (''data'',
      [(''validate'', Validator (Instance [NoneType, StringTypes])),
       (''units'', Value (PStr ''N/A'')),
       (''description'', Value (PStr ''TODO: Better description. - Binary data.'')),
       (''default'', Value (PNone))]),
    (''mmsi1'',
      [(''validate'', Validator (Any [Int', Instance [NoneType]])),
       (''units'', Value (PStr ''N/A'')),
       (''description'', Value (PStr '''')),
       (''default'', Value (PNone))]),
    (''mmsiseq1'',
      [(''validate'', Validator (Any [Int', Instance [NoneType]])),
       (''units'', Value (PStr ''N/A'')),
       (''description'', Value (PStr ''Not used.'')),
       (''default'', Value (PNone))]),
    (''mmsi2'',
      [(''validate'', Validator (Any [Int', Instance [NoneType]])),
       (''units'', Value (PStr ''N/A'')),
       (''description'', Value (PStr ''Interrogated MMSI.'')),
       (''default'', Value (PNone))]),
    (''mmsiseq2'',
      [(''validate'', Validator (Any [Int', Instance [NoneType]])),
       (''units'', Value (PStr ''N/A'')),
       (''description'', Value (PStr ''Not used.'')),
       (''default'', Value (PNone))]),
    (''mmsi3'',
      [(''validate'', Validator (Any [Int', Instance [NoneType]])),
       (''units'', Value (PStr ''N/A'')),
       (''description'', Value (PStr ''Interrogated MMSI.'')),
       (''default'', Value (PNone))]),
    (''mmsiseq3'',
      [(''validate'', Validator (Any [Int', Instance [NoneType]])),
       (''units'', Value (PStr ''N/A'')),
       (''description'', Value (PStr ''Not used.'')),
       (''default'', Value (PNone))]),
    (''mmsi4'',
      [(''validate'', Validator (Any [Int', Instance [NoneType]])),
       (''units'', Value (PStr ''N/A'')),
       (''description'', Value (PStr ''Interrogated MMSI.'')),
       (''default'', Value (PNone))]),
    (''mmsiseq4'',
      [(''validate'', Validator (Any [Int', Instance [NoneType]])),
       (''units'', Value (PStr ''N/A'')),
       (''description'', Value (PStr ''Not used.'')),
       (''default'', Value (PNone))]),
    (''alt'',
      [(''validate'', Validator (IntRange [0, 4095])),
       (''units'', Value (PStr ''meters'')),
       (''description'', Value (PStr ''SAR vehicle altitude.  Special value '4095' indicates altitude not available.'')),
       (''default'', Value (PInt 4095))]),
    (''speed9'',
      [(''validate'', Validator (IntRange [0, 1023])),
       (''units'', Value (PStr ''knots'')),
       (''description'', Value (PStr ''Broadcast by search-and-rescue aircraft.  Special value 1023 indicates speed not available.'')),
       (''default'', Value (PInt 1023)),
       (''name'', Value (PStr ''speed''))]),
    (''assigned'',
      [(''validate'', Validator (IntIn [0, 1])),
       (''units'', Value (PStr ''N/A'')),
       (''description'', Value (PStr ''Assigned-mode flag.  0=autonomous and 1=assigned.'')),
       (''default'', Value (PInt 0))]),
    (''text'',
      [(''validate'', Validator (Instance [NoneType, StringTypes])),
       (''units'', Value (PStr ''N/A'')),
       (''description'', Value (PStr ''Plain text info specific to broadcast message type.'')),
       (''default'', Value (PNone))]),
    (''type1_1'',
      [(''validate'', Validator (IntRange [0, 27])),
       (''units'', Value (PStr ''N/A'')),
       (''description'', Value (PStr ''First message type.'')),
       (''default'', Value (PInt 0))]),
    (''offset1_1'',
      [(''validate'', Validator (IntRange [0])),
       (''units'', Value (PStr ''N/A'')),
       (''description'', Value (PStr ''First slot offset.'')),
       (''default'', Value (PInt 0))]),
    (''offset1_2'',
      [(''validate'', Validator (IntRange [0])),
       (''units'', Value (PStr ''N/A'')),
       (''description'', Value (PStr ''Second slot offset.'')),
       (''default'', Value (PInt 0))]),
    (''offset2_1'',
      [(''validate'', Validator (IntRange [0])),
       (''units'', Value (PStr ''N/A'')),
       (''description'', Value (PStr ''TODO: What is this?'')),
       (''default'', Value (PInt 0))]),
    (''type1_2'',
      [(''validate'', Validator (IntRange [0, 27])),
       (''units'', Value (PStr ''N/A'')),
       (''description'', Value (PStr ''Second message type.'')),
       (''default'', Value (PInt 0))]),
    (''type2_1'',
      [(''validate'', Validator (IntRange [0, 27])),
       (''units'', Value (PStr ''N/A'')),
       (''description'', Value (PStr ''TODO: What is this?'')),
       (''default'', Value (PInt 0))]),
    (''offset1'',
      [(''validate'', Validator (IntRange [0])),
       (''units'', Value (PStr ''N/A'')),
       (''description'', Value (PStr ''TODO: What is this?  Valid default?'')),
       (''default'', Value (PInt 0))]),
    (''offset2'',
      [(''validate'', Validator (IntRange [0])),
       (''units'', Value (PStr ''N/A'')),
       (''description'', Value (PStr ''TODO: What is this?  Valid default?'')),
       (''default'', Value (PInt 0))]),
    (''offset3'',
      [(''validate'', Validator (IntRange [0])),
       (''units'', Value (PStr ''N/A'')),
       (''description'', Value (PStr ''TODO: What is this?  Valid default?'')),
       (''default'', Value (PInt 0))]),
    (''offset4'',
      [(''validate'', Validator (IntRange [0])),
       (''units'', Value (PStr ''N/A'')),
       (''description'', Value (PStr ''TODO: What is this?  Valid default?'')),
       (''default'', Value (PInt 0))]),
    (''increment1'',
      [(''validate'', Validator (IntRange [0])),
       (''units'', Value (PStr ''N/A'')),
       (''description'', Value (PStr ''TODO: What is this?  Valid default?'')),
       (''default'', Value (PInt 0))]),
    (''increment2'',
      [(''validate'', Validator (IntRange [0])),
       (''units'', Value (PStr ''N/A'')),
       (''description'', Value (PStr ''TODO: What is this?  Valid default?'')),
       (''default'', Value (PInt 0))]),
    (''increment3'',
      [(''validate'', Validator (IntRange [0])),
       (''units'', Value (PStr ''N/A'')),
       (''description'', Value (PStr ''TODO: What is this?  Valid default?'')),
       (''default'', Value (PInt 0))]),
    (''increment4'',
      [(''validate'', Validator (IntRange [0])),
       (''units'', Value (PStr ''N/A'')),
       (''description'', Value (PStr ''TODO: What is this?  Valid default?'')),
       (''default'', Value (PInt 0))]),
    (''spare'',
      [(''validate'', Validator (IntRange [0])),
       (''units'', Value (PStr ''N/A'')),
       (''description'', Value (PStr ''Spare bits.'')),
       (''default'', Value (PInt 0))]),
    (''cs'',
      [(''validate'', Validator (IntIn [0, 1])),
       (''units'', Value (PStr ''N/A'')),
       (''description'', Value (PStr ''Carrier sense unit.  TODO: Finish'')),
       (''default'', Value (PInt 0))]),
    (''display'',
      [(''validate'', Validator (IntIn [0, 1])),
       (''units'', Value (PStr ''N/A'')),
       (''description'', Value (PStr ''0=Does not have visual display.  1=Has visual display.  TODO: Finish.'')),
       (''default'', Value (PInt 0))]),
    (''dsc'',
      [(''validate'', Validator (IntIn [0, 1])),
       (''units'', Value (PStr ''N/A'')),
       (''description'', Value (PStr ''If 1, unit is attached to a VHF voice radio with DSC capability.'')),
       (''default'', Value (PInt 1))]),
    (''band'',
      [(''validate'', Validator (IntIn [0, 1])),
       (''units'', Value (PStr ''N/A'')),
       (''description'', Value (PStr ''Base stations can command units to switch frequency.  If this flag is 1, the unit can use any part of the marine channel.'')),
       (''default'', Value (PInt 0))]),
    (''msg22'',
      [(''validate'', Validator (IntIn [0, 1])),
       (''units'', Value (PStr ''N/A'')),
       (''description'', Value (PStr ''If 1, unit can accept a channel assignment via Message Type 22.'')),
       (''default'', Value (PInt 0))]),
    (''number1'',
      [(''validate'', Validator (IntRange [0])),
       (''units'', Value (PStr ''N/A'')),
       (''description'', Value (PStr ''Consecutive/reserved slots.  TODO: What is this exactly?'')),
       (''default'', Value (PInt 0))]),
    (''number2'',
      [(''validate'', Validator (IntRange [0])),
       (''units'', Value (PStr ''N/A'')),
       (''description'', Value (PStr ''Consecutive/reserved slots.  TODO: What is this exactly?'')),
       (''default'', Value (PInt 0))]),
    (''number3'',
      [(''validate'', Validator (IntRange [0])),
       (''units'', Value (PStr ''N/A'')),
       (''description'', Value (PStr ''Consecutive/reserved slots.  TODO: What is this exactly?'')),
       (''default'', Value (PInt 0))]),
    (''number4'',
      [(''validate'', Validator (IntRange [0])),
       (''units'', Value (PStr ''N/A'')),
       (''description'', Value (PStr ''Consecutive/reserved slots.  TODO: What is this exactly?'')),
       (''default'', Value (PInt 0))]),
    (''timeout1'',
      [(''validate'', Validator (IntRange [0, 59])),
       (''units'', Value (PStr ''minutes'')),
       (''description'', Value (PStr ''Allocation timeout in minutes.  TODO: Valid default?'')),
       (''default'', Value (PInt 0))]),
    (''timeout2'',
      [(''validate'', Validator (IntRange [0, 59])),
       (''units'', Value (PStr ''minutes'')),
       (''description'', Value (PStr ''Allocation timeout in minutes.  TODO: Valid default?'')),
       (''default'', Value (PInt 0))]),
    (''timeout3'',
      [(''validate'', Validator (IntRange [0, 59])),
       (''units'', Value (PStr ''minutes'')),
       (''description'', Value (PStr ''Allocation timeout in minutes.  TODO: Valid default?'')),
       (''default'', Value (PInt 0))]),
    (''timeout4'',
      [(''validate'', Validator (IntRange [0, 59])),
       (''units'', Value (PStr ''minutes'')),
       (''description'', Value (PStr ''Allocation timeout in minutes.  TODO: Valid default?'')),
       (''default'', Value (PInt 0))]),
    (''aid_type'',
      [(''validate'', Validator (IntRange [0, 31])),
       (''units'', Value (PStr ''N/A'')),
       (''description'', Value (PStr ''Navigation aid type.'')),
       (''default'', Value (PInt 0))]),
    (''name_extension'',
      [(''validate'', Validator (Instance [NoneType, StringTypes])),
       (''units'', Value (PStr ''N/A'')),
       (''description'', Value (PStr ''TODO: Finish.  Is this a good field name?'')),
       (''default'', Value (PNone))]),
    (''txrx'',
      [(''validate'', Validator (IntIn [0, 1, 2, 3])),
       (''units'', Value (PStr ''N/A'')),
       (''description'', Value (PStr ''The txrx field encodes the same information as the 2-bit field txrx field in message type 23; only the two low bits are used.  It also tells the affected stations which channel or channels they may transmit on. The options refer to the same A and B VHF channels as in Message Type 22.'')),
       (''default'', Value (PInt 0))]),
    (''power'',
      [(''validate'', Validator (IntIn [0, 1])),
       (''units'', Value (PStr ''N/A'')),
       (''description'', Value (PStr ''Low=0, high=1'')),
       (''default'', Value (PInt 0))]),
    (''ne_lon'',
      [(''validate'', Validator (Any [Float, In [PInt 108600]])),
       (''units'', Value (PStr ''WGS84 degress'')),
       (''description'', Value (PStr ''TODO: Description.'')),
       (''default'', Value (PInt 108600))]),
    (''ne_lat'',
      [(''validate'', Validator (Any [Float, In [PInt 54600]])),
       (''units'', Value (PStr ''WGS84 degress'')),
       (''description'', Value (PStr ''TODO: Description.'')),
       (''default'', Value (PInt 54600))]),
    (''sw_lon'',
      [(''validate'', Validator (Any [Float, In [PInt 108600]])),
       (''units'', Value (PStr ''WGS84 degress'')),
       (''description'', Value (PStr ''TODO: Description.'')),
       (''default'', Value (PInt 108600))]),
    (''sw_lat'',
      [(''validate'', Validator (Any [Float, In [PInt 108600]])),
       (''units'', Value (PStr ''WGS84 degress'')),
       (''description'', Value (PStr ''TODO: Description.'')),
       (''default'', Value (PInt 108600))]),
    (''dest1'',
      [(''validate'', Validator Int'),
       (''units'', Value (PStr ''N/A'')),
       (''description'', Value (PStr ''MMSI of destination 1.'')),
       (''default'', Value (PInt 0))]),
    (''dest2'',
      [(''validate'', Validator Int'),
       (''units'', Value (PStr ''N/A'')),
       (''description'', Value (PStr ''MMSI of destination 2.'')),
       (''default'', Value (PInt 0))]),
    (''band_a'',
      [(''validate'', Validator (IntIn [0, 1])),
       (''units'', Value (PStr ''N/A'')),
       (''description'', Value (PStr ''Default=0, 1=12.5kHz'')),
       (''default'', Value (PInt 0))]),
    (''band_b'',
      [(''validate'', Validator (IntIn [0, 1])),
       (''units'', Value (PStr ''N/A'')),
       (''description'', Value (PStr ''Default=0, 1=12.5kHz'')),
       (''default'', Value (PInt 0))]),
    (''zonesize'',
      [(''validate'', Validator (IntRange [0])),
       (''units'', Value (PStr ''N/A'')),
       (''description'', Value (PStr ''Size of transitional zone.'')),
       (''default'', Value (PInt 0))]),
    (''station_type'',
      [(''validate'', Validator (IntRange [0, 15])),
       (''units'', Value (PStr ''N/A'')),
       (''description'', Value (PStr ''TODO: Finish.'')),
       (''default'', Value (PInt 0))]),
    (''ship_type'',
      [(''validate'', Validator (IntRange [0])),
       (''units'', Value (PStr ''N/A'')),
       (''description'', Value (PStr ''TODO: Finish.  Ship type list not present in AIVDM doc.'')),
       (''default'', Value (PInt 0))]),
    (''interval'',
      [(''validate'', Validator (IntRange [0, 15])),
       (''units'', Value (PStr ''N/A'')),
       (''description'', Value (PStr ''TODO: Finish.  Valid default?'')),
       (''default'', Value (PInt 0))]),
    (''quiet'',
      [(''validate'', Validator (IntRange [0, 15])),
       (''units'', Value (PStr ''minutes'')),
       (''description'', Value (PStr ''Quiet time in minutes.  None=0.'')),
       (''default'', Value (PInt 0))]),
    (''partno'',
      [(''validate'', Validator (IntIn [0, 1])),
       (''units'', Value (PStr ''N/A'')),
       (''description'', Value (PStr ''If the Part Number field is 0, the rest of the message is interpreted as a Part A; if it is 1, the rest of the message is interpreted as a Part B; values 2 and 3 are not allowed.'')),
       (''default'', Value (PInt 0))]),
    (''vendorid'',
      [(''validate'', Validator (Instance [NoneType, StringTypes])),
       (''units'', Value (PStr ''N/A'')),
       (''description'', Value (PStr ''Name of the AIS equipment vendor.'')),
       (''default'', Value (PNone))]),
    (''model'',
      [(''validate'', Validator (IntRange [0])),
       (''units'', Value (PStr ''N/A'')),
       (''description'', Value (PStr ''AIS equipment model number.'')),
       (''default'', Value (PInt 0))]),
    (''serial'',
      [(''validate'', Validator (IntRange [0])),
       (''units'', Value (PStr ''N/A'')),
       (''description'', Value (PStr ''AIS equipment serial number.'')),
       (''default'', Value (PInt 0))]),
    (''mothership_mmsi'',
      [(''validate'', Validator (Any [Int', Instance [NoneType]])),
       (''units'', Value (PStr ''N/A'')),
       (''description'', Value (PStr ''If vessel is a support craft, this is the MMSI of the vessel it is supporting.'')),
       (''default'', Value (PNone))]),
    (''addressed'',
      [(''validate'', Validator (IntIn [0, 1])),
       (''units'', Value (PStr ''N/A'')),
       (''description'', Value (PStr ''broadcast=0, addressed=1'')),
       (''default'', Value (PInt 0))]),
    (''structured'',
      [(''validate'', Validator (Instance [NoneType, StringTypes])),
       (''units'', Value (PStr ''N/A'')),
       (''description'', Value (PStr ''TODO: Finish'')),
       (''default'', Value (PNone))]),
    (''app_id'',
      [(''validate'', Validator (IntRange [0])),
       (''units'', Value (PStr ''N/A'')),
       (''description'', Value (PStr ''TODO: Finish.'')),
       (''default'', Value (PInt 0))]),
    (''gnss'',
      [(''validate'', Validator (In [PInt 0, PInt 1])),
       (''units'', Value (PStr ''N/A'')),
       (''description'', Value (PStr ''Current GNSS position=0,Not GNSS position=1'')),
       (''default'', Value (PInt 1))]),
    (''destination'',
      [(''validate'', Validator (Instance [NoneType, StringTypes])),
       (''units'', Value (PStr ''N/A'')),
       (''description'', Value (PStr ''UN/LOCODE or ERI terminal code.'')),
       (''default'', Value (PNone))]),
    (''shipname'',
      [(''validate'', Validator (Instance [NoneType, StringTypes])),
       (''units'', Value (PStr ''N/A'')),
       (''description'', Value (PStr ''Vessel name.'')),
       (''default'', Value (PNone))]),
    (''reserved'',
      [(''validate'', Validator (Instance [NoneType, StringTypes])),
       (''units'', Value (PStr ''N/A'')),
       (''description'', Value (PStr ''Bits reserved for future use.'')),
       (''default'', Value (PNone))]),
    (''name'',
      [(''validate'', Validator (Instance [NoneType, StringTypes])),
       (''units'', Value (PStr ''N/A'')),
       (''description'', Value (PStr ''Name of aid to navigation for type 21.'')),
       (''default'', Value (PNone))]),
    (''off_position'',
      [(''validate'', Validator (Instance [NoneType, StringTypes])),
       (''units'', Value (PStr ''N/A'')),
       (''description'', Value (PStr ''TODO: Finish.  Valid types?'')),
       (''default'', Value (PNone))]),
    (''virtual_aid'',
      [(''validate'', Validator (Instance [NoneType, StringTypes])),
       (''units'', Value (PStr ''N/A'')),
       (''description'', Value (PStr ''TODO: Finish.  Valid types?'')),
       (''default'', Value (PNone))]),
    (''channel_a'',
      [(''validate'', Validator (IntRange [0])),
       (''units'', Value (PStr ''N/A'')),
       (''description'', Value (PStr ''The values of the channel_a and channel_b fields are ITU frequency designators for channelas A and B. Normally these will be 2087 and 2088, the AIS 1 and AIS 2 frequencies of 87B (161.975 MHz) and 88B (162.025 MHz) respectively. Regional authorities may set different frequencies.'')),
       (''default'', Value (PInt 2087))]),
    (''channel_b'',
      [(''validate'', Validator (IntRange [0])),
       (''units'', Value (PStr ''N/A'')),
       (''description'', Value (PStr ''The values of the channel_a and channel_b fields are ITU frequency designators for channelas A and B. Normally these will be 2087 and 2088, the AIS 1 and AIS 2 frequencies of 87B (161.975 MHz) and 88B (162.025 MHz) respectively. Regional authorities may set different frequencies.'')),
       (''default'', Value (PInt 2088))]),
    (''timestamp'',
      [(''validate'', Validator (Any [Instance [NoneType], DateTime])),
       (''units'', Value (PStr ''N/A'')),
       (''description'', Value (PStr ''Timestamp message was broadcast.  Not part of the AIVDM spec, but critical to working with AIS data.'')),
       (''default'', Value (PNone))])]"

text \<open>The table \<open>_FIELDS_BY_TYPE\<close>.\<close>

definition FIELDS_BY_TYPE :: "(int \<times> string list) list" where
  "FIELDS_BY_TYPE = [
    (1,
      [''accuracy'', ''course'', ''heading'', ''lat'', ''lon'', ''maneuver'',
       ''mmsi'', ''spare'', ''radio'', ''raim'', ''repeat'', ''second'', ''speed'',
       ''status'', ''turn'', ''type'', ''timestamp'']),
    (2,
      [''accuracy'', ''course'', ''heading'', ''lat'', ''lon'', ''maneuver'',
       ''mmsi'', ''spare'', ''radio'', ''raim'', ''repeat'', ''second'', ''speed'',
       ''status'', ''turn'', ''type'', ''timestamp'']),
    (3,
      [''accuracy'', ''course'', ''heading'', ''lat'', ''lon'', ''maneuver'',
       ''mmsi'', ''spare'', ''radio'', ''raim'', ''repeat'', ''second'', ''speed'',
       ''status'', ''turn'', ''type'', ''timestamp'']),
    (4,
      [''accuracy'', ''day'', ''epfd'', ''hour'', ''lat'', ''lon'', ''minute'',
       ''mmsi'', ''month'', ''radio'', ''raim'', ''repeat'', ''second'', ''type'',
       ''year'', ''spare'', ''timestamp'']),
    (5,
      [''ais_version'', ''callsign'', ''day'', ''destination'', ''draught'',
       ''dte'', ''epfd'', ''hour'', ''imo'', ''minute'', ''mmsi'', ''month'',
       ''repeat'', ''shipname'', ''shiptype'', ''to_bow'', ''to_port'',
       ''to_starboard'', ''to_stern'', ''type'', ''spare'', ''timestamp'']),
    (6,
      [''type'', ''repeat'', ''mmsi'', ''seqno'', ''dest_mmsi'', ''retransmit'',
       ''spare'', ''dac'', ''fid'', ''data'', ''timestamp'']),
    (7,
      [''day'', ''destination'', ''draught'', ''dte'', ''epfd'', ''hour'',
       ''minute'', ''mmsi'', ''mmsi1'', ''mmsi2'', ''mmsi3'', ''mmsi4'',
       ''mmsiseq1'', ''mmsiseq2'', ''mmsiseq3'', ''mmsiseq4'', ''month'',
       ''repeat'', ''type'', ''timestamp'']),
    (8,
      [''assigned'', ''course'', ''dac'', ''data'', ''destination'', ''draught'',
       ''dte'', ''fid'', ''lat'', ''minute'', ''mmsi'', ''radio'', ''raim'',
       ''regional'', ''repeat'', ''second'', ''type'', ''timestamp'']),
    (9,
      [''accuracy'', ''alt'', ''assigned'', ''course'', ''destination'',
       ''draught'', ''dte'', ''lat'', ''lon'', ''minute'', ''mmsi'', ''radio'',
       ''raim'', ''regional'', ''repeat'', ''second'', ''speed9'', ''type'',
       ''timestamp'']),
    (10,
      [''assigned'', ''course'', ''dest_mmsi'', ''destination'', ''draught'',
       ''dte'', ''lat'', ''lon'', ''minute'', ''mmsi'', ''radio'', ''raim'',
       ''regional'', ''repeat'', ''second'', ''type'', ''timestamp'']),
    (11,
      [''accuracy'', ''day'', ''epfd'', ''hour'', ''lat'', ''lon'', ''minute'',
       ''mmsi'', ''month'', ''radio'', ''raim'', ''repeat'', ''second'', ''type'',
       ''year'', ''timestamp'']),
    (12,
      [''assigned'', ''course'', ''dest_mmsi'', ''destination'', ''draught'',
       ''dte'', ''minute'', ''mmsi'', ''radio'', ''raim'', ''regional'', ''repeat'',
       ''retransmit'', ''second'', ''seqno'', ''text'', ''type'', ''timestamp'']),
    (13,
      [''day'', ''destination'', ''draught'', ''dte'', ''epfd'', ''hour'',
       ''minute'', ''mmsi'', ''mmsi1'', ''mmsi2'', ''mmsi3'', ''mmsi4'',
       ''mmsiseq1'', ''mmsiseq2'', ''mmsiseq3'', ''mmsiseq4'', ''month'',
       ''repeat'', ''type'', ''timestamp'']),
    (14,
      [''assigned'', ''course'', ''destination'', ''draught'', ''dte'', ''minute'',
       ''mmsi'', ''radio'', ''raim'', ''regional'', ''repeat'', ''retransmit'',
       ''second'', ''text'', ''type'', ''timestamp'']),
    (15,
      [''destination'', ''draught'', ''dte'', ''minute'', ''mmsi'', ''mmsi1'',
       ''mmsi2'', ''offset1_1'', ''offset1_2'', ''offset2_1'', ''radio'',
       ''repeat'', ''type'', ''type1_1'', ''type1_2'', ''type2_1'', ''timestamp'']),
    (16,
      [''destination'', ''draught'', ''dte'', ''increment1'', ''minute'', ''mmsi'',
       ''mmsi1'', ''mmsi2'', ''offset1'', ''offset2'', ''offset2_1'', ''radio'',
       ''repeat'', ''type'', ''type2_1'', ''timestamp'']),
    (17,
      [''data'', ''lat'', ''lon'', ''mmsi'', ''repeat'', ''type'', ''timestamp'']),
    (18,
      [''accuracy'', ''assigned'', ''band'', ''course'', ''cs'', ''display'',
       ''dsc'', ''heading'', ''lat'', ''lon'', ''mmsi'', ''msg22'', ''radio'',
       ''raim'', ''regional'', ''repeat'', ''reserved'', ''second'', ''speed'',
       ''type'', ''timestamp'']),
    (19,
      [''accuracy'', ''assigned'', ''course'', ''dte'', ''epfd'', ''heading'',
       ''lat'', ''lon'', ''mmsi'', ''raim'', ''regional'', ''repeat'', ''reserved'',
       ''second'', ''shipname'', ''shiptype'', ''speed'', ''to_bow'', ''to_port'',
       ''to_starboard'', ''to_stern'', ''type'', ''timestamp'']),
    (20,
      [''assigned'', ''dte'', ''increment1'', ''increment2'', ''increment3'',
       ''increment4'', ''mmsi'', ''number1'', ''number2'', ''number3'', ''number4'',
       ''offset1'', ''offset2'', ''offset3'', ''offset4'', ''repeat'', ''timeout1'',
       ''timeout2'', ''timeout3'', ''timeout4'', ''type'', ''timestamp'']),
    (21,
      [''accuracy'', ''aid_type'', ''assigned'', ''epfd'', ''lat'', ''lon'',
       ''mmsi'', ''name'', ''off_position'', ''raim'', ''regional'', ''repeat'',
       ''second'', ''to_bow'', ''to_port'', ''to_starboard'', ''to_stern'',
       ''type'', ''virtual_aid'', ''timestamp'']),
    (22,
      [''addressed'', ''assigned'', ''band_a'', ''band_b'', ''channel_a'',
       ''channel_b'', ''dest1'', ''dest2'', ''mmsi'', ''ne_lat'', ''ne_lon'',
       ''power'', ''repeat'', ''sw_lat'', ''sw_lon'', ''txrx'', ''type'',
       ''zonesize'', ''timestamp'']),
    (23,
      [''assigned'', ''band_a'', ''band_b'', ''interval'', ''mmsi'', ''ne_lat'',
       ''ne_lon'', ''quiet'', ''repeat'', ''ship_type'', ''station_type'',
       ''sw_lat'', ''sw_lon'', ''txrx'', ''type'', ''zonesize'', ''timestamp'']),
    (24,
      [''assigned'', ''callsign'', ''mmsi'', ''model'', ''mothership_mmsi'',
       ''partno'', ''repeat'', ''serial'', ''shipname'', ''shiptype'', ''to_bow'',
       ''to_port'', ''to_starboard'', ''to_stern'', ''type'', ''vendorid'',
       ''zonesize'', ''timestamp'']),
    (25,
      [''addressed'', ''app_id'', ''assigned'', ''callsign'', ''data'',
       ''dest_mmsi'', ''mmsi'', ''model'', ''mothership_mmsi'', ''repeat'',
       ''serial'', ''structured'', ''to_bow'', ''to_port'', ''to_starboard'',
       ''to_stern'', ''type'', ''zonesize'', ''timestamp'']),
    (26,
      [''addressed'', ''app_id'', ''assigned'', ''callsign'', ''data'',
       ''dest_mmsi'', ''mmsi'', ''mothership_mmsi'', ''radio'', ''repeat'',
       ''serial'', ''structured'', ''to_bow'', ''to_port'', ''to_starboard'',
       ''to_stern'', ''type'', ''zonesize'', ''timestamp'']),
    (27,
      [''accuracy'', ''assigned'', ''course'', ''gnss'', ''lat'', ''lon'', ''mmsi'',
       ''mothership_mmsi'', ''raim'', ''repeat'', ''speed'', ''status'',
       ''to_port'', ''to_starboard'', ''to_stern'', ''type'', ''zonesize'',
       ''timestamp''])]"

text \<open>
  \<open>merge_fields\<close>: \<open>out.update(**flds)\<close> for each table in turn, so a later table
  overwrites an earlier one on the same key.
\<close>

definition merge_fields :: "(string \<times> fielddef) list list \<Rightarrow> (string \<times> fielddef) list" where
  "merge_fields tables =
     foldl (\<lambda>out flds. foldl (\<lambda>out (k, v). dict_set k v out) out flds) [] tables"

text \<open>
  \<open>merge_fields_by_type\<close>: for each table in turn and each of its types,
  \<open>out[mtype] = tuple(chain(fields, out[mtype]))\<close>, where \<open>out\<close> is a
  \<open>defaultdict(list)\<close>: a type not seen yet reads as the empty list.
\<close>

definition merge_fields_by_type :: "(int \<times> string list) list list \<Rightarrow> (int \<times> string list) list" where
  "merge_fields_by_type fbt =
     foldl (\<lambda>out fdef.
              foldl (\<lambda>out (mtype, names).
                       dict_set mtype
                         (names @ (case map_of out mtype of None \<Rightarrow> [] | Some fs \<Rightarrow> fs)) out)
                    out fdef)
           [] fbt"

text \<open>
  \<open>build_schema\<close>. \<open>sub_name\<close> is \<open>fields[fld].get('sub_name', fld)\<close>; the name it gives is
  then looked up in \<open>fields\<close> again (\<open>definition[name] = fields[name]\<close>). A lookup of a
  missing key raises KeyError. The two extension tables are module globals, filled from
  entry points when the module is loaded; they are parameters here. The table \<open>fields\<close>
  of the source is called \<open>fdefs\<close>.
\<close>

definition sub_name :: "fielddef \<Rightarrow> string \<Rightarrow> exn + string" where
  "sub_name fd fld =
     (case map_of fd ''sub_name'' of
        None \<Rightarrow> Inr fld
      | Some (Value (PStr n)) \<Rightarrow> Inr n
      | Some _ \<Rightarrow> Inl (KeyError ''sub_name''))"

fun build_definition ::
  "(string \<times> fielddef) list \<Rightarrow> string list \<Rightarrow> (string \<times> fielddef) list \<Rightarrow>
   exn + (string \<times> fielddef) list" where
  "build_definition fdefs [] definition = Inr definition"
| "build_definition fdefs (fld # mfields) definition =
     (case map_of fdefs fld of
        None \<Rightarrow> Inl (KeyError fld)
      | Some fd \<Rightarrow>
          (case sub_name fd fld of
             Inl e \<Rightarrow> Inl e
           | Inr name \<Rightarrow>
               (case map_of fdefs name of
                  None \<Rightarrow> Inl (KeyError name)
                | Some nd \<Rightarrow> build_definition fdefs mfields (dict_set name nd definition))))"

fun build_types ::
  "(string \<times> fielddef) list \<Rightarrow> (int \<times> string list) list \<Rightarrow>
   (int \<times> (string \<times> fielddef) list) list \<Rightarrow> exn + (int \<times> (string \<times> fielddef) list) list" where
  "build_types fdefs [] out = Inr out"
| "build_types fdefs ((mtype, mfields) # rest) out =
     (case build_definition fdefs mfields [] of
        Inl e \<Rightarrow> Inl e
      | Inr definition \<Rightarrow> build_types fdefs rest (dict_set mtype definition out))"

definition build_schema ::
  "(int \<times> string list) list \<Rightarrow> (string \<times> fielddef) list \<Rightarrow>
   (int \<times> string list) list option \<Rightarrow> (string \<times> fielddef) list option \<Rightarrow> bool \<Rightarrow>
   exn + (int \<times> (string \<times> fielddef) list) list" where
  "build_schema FIELDS_BY_TYPE_EXTENSIONS FIELD_EXTENSIONS fields_by_type fdefs extensions =
     (let fields_by_type' =
            (case fields_by_type of
               None \<Rightarrow>
                 (if extensions
                  then merge_fields_by_type [FIELDS_BY_TYPE, FIELDS_BY_TYPE_EXTENSIONS]
                  else FIELDS_BY_TYPE)
             | Some t \<Rightarrow> t);
          fdefs' =
            (case fdefs of
               None \<Rightarrow> (if extensions then merge_fields [FIELDS, FIELD_EXTENSIONS] else FIELDS)
             | Some t \<Rightarrow> t)
      in build_types fdefs' fields_by_type' [])"

text \<open>
  For a table in which no field definition has the key \<open>sub_name\<close>, the definition built
  for a list of field names is described by \<open>plain_definition\<close>: every name is entered
  under itself, with the definition that the table gives it.
\<close>

definition no_sub_name :: "(string \<times> fielddef) list \<Rightarrow> bool" where
  "no_sub_name fdefs = list_all (\<lambda>(k, fd). map_of fd ''sub_name'' = None) fdefs"

definition plain_definition ::
  "(string \<times> fielddef) list \<Rightarrow> (string \<times> fielddef) list \<Rightarrow> string list \<Rightarrow> (string \<times> fielddef) list" where
  "plain_definition fdefs d mfields = foldl (\<lambda>d f. dict_set f (the (map_of fdefs f)) d) d mfields"


section \<open>Python values: truth, equality and order\<close>

text \<open>
  Numbers compare by value across \<open>bool\<close>, \<open>int\<close> and \<open>float\<close> (\<open>True == 1\<close>,
  \<open>1 == 1.0\<close>); strings compare with strings, character by character; \<open>None\<close> is equal
  to itself only. \<open>==\<close> never raises on these values; \<open><\<close> raises TypeError when the
  two sides are not both numbers or both strings (Python 3).
\<close>

fun num_of :: "pyval \<Rightarrow> real option" where
  "num_of (PBool b) = Some (if b then 1 else 0)"
| "num_of (PInt i) = Some (of_int i)"
| "num_of (PFloat r) = Some r"
| "num_of _ = None"

definition py_eq :: "pyval \<Rightarrow> pyval \<Rightarrow> bool" where
  "py_eq a b =
     (case (num_of a, num_of b) of
        (Some x, Some y) \<Rightarrow> x = y
      | (None, None) \<Rightarrow> a = b
      | _ \<Rightarrow> False)"

definition py_lt :: "pyval \<Rightarrow> pyval \<Rightarrow> exn + bool" where
  "py_lt a b =
     (case (num_of a, num_of b) of
        (Some x, Some y) \<Rightarrow> Inr (x < y)
      | _ \<Rightarrow>
          (case (a, b) of
             (PStr s, PStr t) \<Rightarrow> Inr (s < t)
           | _ \<Rightarrow> Inl (TypeError ''< not supported between these types'')))"

text \<open>
  Two dicts are equal when they have the same keys with equal values. An association
  list stands for the dict that \<open>map_of\<close> reads from it.
\<close>

definition dict_eq :: "msg \<Rightarrow> msg \<Rightarrow> bool" where
  "dict_eq m1 m2 =
     list_all (\<lambda>k. rel_option py_eq (map_of m1 k) (map_of m2 k)) (map fst m1 @ map fst m2)"

text \<open>
  What a name can be bound to when an expression is evaluated: a value, a whole message
  (the name \<open>msg\<close>), or an object of the module or of the builtins (a function, a class,
  a module), known by its name only.
\<close>

datatype pyobj = Val pyval | Dict msg | Object string

fun truthy :: "pyobj \<Rightarrow> bool" where
  "truthy (Val PNone) = False"
| "truthy (Val (PBool b)) = b"
| "truthy (Val (PInt i)) = (i \<noteq> 0)"
| "truthy (Val (PFloat r)) = (r \<noteq> 0)"
| "truthy (Val (PStr s)) = (s \<noteq> [])"
| "truthy (Dict m) = (m \<noteq> [])"
| "truthy (Object _) = True"

fun obj_eq :: "pyobj \<Rightarrow> pyobj \<Rightarrow> bool" where
  "obj_eq (Val a) (Val b) = py_eq a b"
| "obj_eq (Dict a) (Dict b) = dict_eq a b"
| "obj_eq (Object a) (Object b) = (a = b)"
| "obj_eq _ _ = False"

section \<open>filter\<close>

text \<open>
  The scopes that \<open>filter\<close> hands to \<open>eval\<close>. The global scope is built from the globals of
  core.py and from Python's builtins, both parameters: the module globals without the
  keys \<open>builtins\<close> and \<open>__builtins__\<close>, those two keys bound to the dict of the builtins that
  are not on the blacklist. \<open>eval\<close> resolves a name in the local scope, then among the
  globals, then in \<open>global_scope['__builtins__']\<close>.
\<close>

record global_scope =
  gvars :: "(string \<times> pyobj) list"
  gbuiltins :: "(string \<times> pyobj) list"

definition scope_blacklist :: "string list" where
  "scope_blacklist =
     [''eval'', ''compile'', ''exec'', ''execfile'', ''builtin'', ''builtins'',
      ''__builtin__'', ''__builtins__'', ''globals'', ''locals'']"

definition make_global_scope ::
  "(string \<times> pyobj) list \<Rightarrow> (string \<times> pyobj) list \<Rightarrow> global_scope" where
  "make_global_scope module_globals py_builtins =
     \<lparr>gvars =
        dict_set ''builtins'' (Object ''builtins'')
          (dict_set ''__builtins__'' (Object ''builtins'')
             (filter (\<lambda>(k, v). k \<notin> set [''builtins'', ''__builtins__'']) module_globals)),
      gbuiltins = filter (\<lambda>(k, v). k \<notin> set scope_blacklist) py_builtins\<rparr>"

text \<open>\<open>local_scope = msg.copy(); local_scope['msg'] = msg\<close>\<close>

definition local_scope :: "msg \<Rightarrow> (string \<times> pyobj) list" where
  "local_scope m = dict_set ''msg'' (Dict m) (map (\<lambda>(k, v). (k, Val v)) m)"

text \<open>
  \<open>eval\<close> is Python's; \<open>filter\<close> depends on it only through the value it returns or the
  exception it raises, so the evaluator \<open>ev\<close> is a parameter. \<open>passes\<close> is the inner loop
  over the expressions with its \<open>else\<close> branch: NameError counts as a false result, a
  false result ends the loop, any other exception leaves the generator.
\<close>

fun passes ::
  "('e \<Rightarrow> global_scope \<Rightarrow> (string \<times> pyobj) list \<Rightarrow> exn + pyobj) \<Rightarrow> global_scope \<Rightarrow>
   'e list \<Rightarrow> msg \<Rightarrow> exn + bool" where
  "passes ev gs [] m = Inr True"
| "passes ev gs (expr # rest) m =
     (case ev expr gs (local_scope m) of
        Inl (NameError _) \<Rightarrow> Inr False
      | Inl e \<Rightarrow> Inl e
      | Inr result \<Rightarrow> (if \<not> truthy result then Inr False else passes ev gs rest m))"

text \<open>
  The generator over a finite stream: the messages it yields and, when an evaluation
  raises, the exception that ends it.
\<close>

fun filter_loop ::
  "('e \<Rightarrow> global_scope \<Rightarrow> (string \<times> pyobj) list \<Rightarrow> exn + pyobj) \<Rightarrow> global_scope \<Rightarrow>
   'e list \<Rightarrow> msg list \<Rightarrow> msg list \<times> exn option" where
  "filter_loop ev gs exprs [] = ([], None)"
| "filter_loop ev gs exprs (m # ms) =
     (case passes ev gs exprs m of
        Inl e \<Rightarrow> ([], Some e)
      | Inr ok \<Rightarrow>
          (case filter_loop ev gs exprs ms of
             (out, err) \<Rightarrow> ((if ok then m # out else out), err)))"

text \<open>
  The argument \<open>expressions\<close> is one expression (a string) or a sequence of them; a
  single one is made a tuple of one.
\<close>

datatype 'e expressions = Single 'e | Many "'e list"

definition gpsdio_filter ::
  "('e \<Rightarrow> global_scope \<Rightarrow> (string \<times> pyobj) list \<Rightarrow> exn + pyobj) \<Rightarrow>
   (string \<times> pyobj) list \<Rightarrow> (string \<times> pyobj) list \<Rightarrow>
   'e expressions \<Rightarrow> msg list \<Rightarrow> msg list \<times> exn option" where
  "gpsdio_filter ev module_globals py_builtins expressions strm =
     (let exprs = (case expressions of Single e \<Rightarrow> [e] | Many es \<Rightarrow> es);
          gs = make_global_scope module_globals py_builtins
      in filter_loop ev gs exprs strm)"

text \<open>
  An evaluator for the expressions of the examples: constants, names, and the
  comparisons \<open>==\<close> and \<open>!=\<close>. A name is looked up in the local scope, then among the
  globals, then among the builtins; a name bound nowhere raises NameError.
\<close>

datatype expr = Const pyval | Name string | Eq expr expr | NotEq expr expr

fun py_eval :: "expr \<Rightarrow> global_scope \<Rightarrow> (string \<times> pyobj) list \<Rightarrow> exn + pyobj" where
  "py_eval (Const v) gs ls = Inr (Val v)"
| "py_eval (Name n) gs ls =
     (case map_of ls n of
        Some x \<Rightarrow> Inr x
      | None \<Rightarrow>
          (case map_of (gvars gs) n of
             Some x \<Rightarrow> Inr x
           | None \<Rightarrow>
               (case map_of (gbuiltins gs) n of
                  Some x \<Rightarrow> Inr x
                | None \<Rightarrow> Inl (NameError n))))"
| "py_eval (Eq a b) gs ls =
     (case py_eval a gs ls of
        Inl e \<Rightarrow> Inl e
      | Inr x \<Rightarrow>
          (case py_eval b gs ls of
             Inl e \<Rightarrow> Inl e
           | Inr y \<Rightarrow> Inr (Val (PBool (obj_eq x y)))))"
| "py_eval (NotEq a b) gs ls =
     (case py_eval a gs ls of
        Inl e \<Rightarrow> Inl e
      | Inr x \<Rightarrow>
          (case py_eval b gs ls of
             Inl e \<Rightarrow> Inl e
           | Inr y \<Rightarrow> Inr (Val (PBool (\<not> obj_eq x y)))))"

text \<open>
  The names that core.py binds at module level, and the builtins that the examples touch
  (Python has many more; those listed are bound in every version).
\<close>

definition core_globals :: "(string \<times> pyobj) list" where
  "core_globals =
     map (\<lambda>n. (n, Object n))
       [''__name__'', ''__doc__'', ''__file__'', ''logging'', ''sys'', ''six'', ''schema'',
        ''logger'', ''__all__'', ''open'', ''GPSDIOStream'', ''filter'', ''sort'']"

definition some_builtins :: "(string \<times> pyobj) list" where
  "some_builtins =
     map (\<lambda>n. (n, Object n))
       [''abs'', ''eval'', ''exec'', ''globals'', ''int'', ''len'', ''locals'', ''str'', ''type'']"

text \<open>
  An expression holds for a message when its evaluation in the scope of the message
  returns a true value.
\<close>

definition holds ::
  "('e \<Rightarrow> global_scope \<Rightarrow> (string \<times> pyobj) list \<Rightarrow> exn + pyobj) \<Rightarrow> global_scope \<Rightarrow>
   msg \<Rightarrow> 'e \<Rightarrow> bool" where
  "holds ev gs m e = (case ev e gs (local_scope m) of Inr v \<Rightarrow> truthy v | Inl _ \<Rightarrow> False)"

definition exprs_of :: "'e expressions \<Rightarrow> 'e list" where
  "exprs_of expressions = (case expressions of Single e \<Rightarrow> [e] | Many es \<Rightarrow> es)"

definition mmsi_is :: "int \<Rightarrow> msg \<Rightarrow> bool" where
  "mmsi_is i m = (case map_of m ''mmsi'' of None \<Rightarrow> False | Some v \<Rightarrow> py_eq v (PInt i))"

text \<open>A stream for the examples: the second message has no \<open>mmsi\<close>.\<close>

definition demo_stream :: "msg list" where
  "demo_stream =
     [[(''mmsi'', PInt 366268061), (''lat'', PInt 10)],
      [(''lat'', PInt 20)],
      [(''mmsi'', PInt 3), (''lat'', PInt 30)]]"


section \<open>sort\<close>

text \<open>
  \<open>sort\<close> puts the pair \<open>(msg[field], msg)\<close> of every message that has the field into a
  \<open>PriorityQueue\<close> and then gets the pairs back until the queue is empty. The queue
  orders its items with \<open><\<close>. On tuples \<open><\<close> looks for the first position where the two
  sides are not equal and compares there; two tuples equal at every position are not
  less than one another. A pair that ties on the field value is therefore decided by the
  messages, and \<open><\<close> between two dicts raises TypeError (Python 3).
\<close>

type_synonym item = "pyval \<times> msg"

fun tuple_lt :: "item \<Rightarrow> item \<Rightarrow> exn + bool" where
  "tuple_lt (k1, m1) (k2, m2) =
     (if \<not> py_eq k1 k2 then py_lt k1 k2
      else if \<not> dict_eq m1 m2 then Inl (TypeError ''< not supported between dict and dict'')
      else Inr False)"

text \<open>
  \<open>PriorityQueue.put\<close> is \<open>heapq.heappush\<close> and \<open>PriorityQueue.get\<close> is \<open>heapq.heappop\<close> on
  the list that the queue holds (the queue is unbounded and is read only when it is not
  empty, so neither call blocks). The four functions below are those of heapq, which
  belongs to Python and not to gpsdio; every comparison may raise. Inside these functions
  the indices are within the list. \<open>smaller_child\<close> is the test of \<open>_siftup\<close> that moves
  \<open>childpos\<close> to the right child when there is one and the left child is not less than it.
\<close>

function siftdown_loop :: "item list \<Rightarrow> nat \<Rightarrow> nat \<Rightarrow> item \<Rightarrow> exn + item list" where
  "siftdown_loop heap startpos pos newitem =
     (if pos > startpos then
        (let parentpos = (pos - 1) div 2;
             parent = heap ! parentpos
         in case tuple_lt newitem parent of
              Inl e \<Rightarrow> Inl e
            | Inr True \<Rightarrow> siftdown_loop (heap[pos := parent]) startpos parentpos newitem
            | Inr False \<Rightarrow> Inr (heap[pos := newitem]))
      else Inr (heap[pos := newitem]))"
  by pat_completeness auto

termination
  by (relation "measure (\<lambda>(heap, startpos, pos, newitem). pos)") auto

declare siftdown_loop.simps [simp del]

definition siftdown :: "item list \<Rightarrow> nat \<Rightarrow> nat \<Rightarrow> exn + item list" where
  "siftdown heap startpos pos = siftdown_loop heap startpos pos (heap ! pos)"

definition smaller_child :: "item list \<Rightarrow> nat \<Rightarrow> exn + nat" where
  "smaller_child heap childpos =
     (let rightpos = childpos + 1 in
      if rightpos < length heap then
        (case tuple_lt (heap ! childpos) (heap ! rightpos) of
           Inl e \<Rightarrow> Inl e
         | Inr smaller \<Rightarrow> Inr (if \<not> smaller then rightpos else childpos))
      else Inr childpos)"

lemma smaller_child_range:
  "smaller_child heap childpos = Inr c \<Longrightarrow> childpos < length heap \<Longrightarrow>
     childpos \<le> c \<and> c \<le> childpos + 1 \<and> c < length heap"
  by (auto simp: smaller_child_def Let_def split: if_splits sum.splits)

function siftup_loop :: "item list \<Rightarrow> nat \<Rightarrow> exn + item list \<times> nat" where
  "siftup_loop heap pos =
     (let childpos = 2 * pos + 1 in
      if childpos < length heap then
        (case smaller_child heap childpos of
           Inl e \<Rightarrow> Inl e
         | Inr c \<Rightarrow> siftup_loop (heap[pos := heap ! c]) c)
      else Inr (heap, pos))"
  by pat_completeness auto

termination
  by (relation "measure (\<lambda>(heap, pos). length heap - pos)")
     (auto dest: smaller_child_range)

declare siftup_loop.simps [simp del]

definition siftup :: "item list \<Rightarrow> nat \<Rightarrow> exn + item list" where
  "siftup heap pos =
     (let newitem = heap ! pos in
      case siftup_loop heap pos of
        Inl e \<Rightarrow> Inl e
      | Inr (heap', pos') \<Rightarrow> siftdown (heap'[pos' := newitem]) pos pos')"

definition heappush :: "item list \<Rightarrow> item \<Rightarrow> exn + item list" where
  "heappush heap itm = siftdown (heap @ [itm]) 0 (length heap)"

definition heappop :: "item list \<Rightarrow> exn + item \<times> item list" where
  "heappop heap =
     (if heap = [] then Inl (IndexError ''pop from empty list'')
      else
        (let lastelt = last heap;
             heap' = butlast heap
         in if heap' \<noteq> [] then
              (let returnitem = heap' ! 0 in
               case siftup (heap'[0 := lastelt]) 0 of
                 Inl e \<Rightarrow> Inl e
               | Inr heap'' \<Rightarrow> Inr (returnitem, heap''))
            else Inr (lastelt, [])))"

text \<open>The heap functions keep the length of the list, so \<open>heappop\<close> shortens it by one.\<close>

lemma siftdown_loop_length:
  "siftdown_loop heap startpos pos newitem = Inr heap' \<Longrightarrow> length heap' = length heap"
proof (induction heap startpos pos newitem rule: siftdown_loop.induct)
  case (1 heap startpos pos newitem)
  from "1.prems" show ?case
    by (subst (asm) siftdown_loop.simps)
       (auto simp: Let_def split: if_splits sum.splits bool.splits dest: "1.IH" [OF _ refl refl])
qed

lemma siftup_loop_length:
  "siftup_loop heap pos = Inr (heap', pos') \<Longrightarrow> length heap' = length heap"
proof (induction heap pos rule: siftup_loop.induct)
  case (1 heap pos)
  show ?case
  proof (cases "2 * pos + 1 < length heap")
    case False
    with "1.prems" show ?thesis by (subst (asm) siftup_loop.simps) (simp add: Let_def)
  next
    case True
    show ?thesis
    proof (cases "smaller_child heap (2 * pos + 1)")
      case (Inl e)
      with True "1.prems" show ?thesis by (subst (asm) siftup_loop.simps) (simp add: Let_def)
    next
      case (Inr c)
      with True "1.prems" have "siftup_loop (heap[pos := heap ! c]) c = Inr (heap', pos')"
        by (subst (asm) siftup_loop.simps) (simp add: Let_def)
      with "1.IH" [OF refl True Inr] show ?thesis by simp
    qed
  qed
qed

lemma heappop_length:
  "heappop heap = Inr (itm, heap') \<Longrightarrow> length heap' < length heap"
  by (auto simp: heappop_def siftup_def siftdown_def Let_def
           split: if_splits sum.splits prod.splits
           dest!: siftup_loop_length siftdown_loop_length)

text \<open>
  The two loops of \<open>sort\<close>. \<open>put_all\<close> is the loop that fills the queue; \<open>get_all\<close> is
  the loop that empties it and yields the messages. An exception while the queue is
  filled ends the generator before anything is yielded; an exception of a later \<open>get\<close>
  ends it after the messages yielded so far.
\<close>

fun put_all :: "string \<Rightarrow> msg list \<Rightarrow> item list \<Rightarrow> exn + item list" where
  "put_all field [] queue = Inr queue"
| "put_all field (m # ms) queue =
     (case map_of m field of
        None \<Rightarrow> put_all field ms queue
      | Some k \<Rightarrow>
          (case heappush queue (k, m) of
             Inl e \<Rightarrow> Inl e
           | Inr queue' \<Rightarrow> put_all field ms queue'))"

function get_all :: "item list \<Rightarrow> msg list \<times> exn option" where
  "get_all queue =
     (if queue = [] then ([], None)
      else
        (case heappop queue of
           Inl e \<Rightarrow> ([], Some e)
         | Inr (itm, queue') \<Rightarrow>
             (case get_all queue' of (out, err) \<Rightarrow> (snd itm # out, err))))"
  by pat_completeness auto

termination
  by (relation "measure length") (auto dest: heappop_length)

declare get_all.simps [simp del]

definition gpsdio_sort :: "msg list \<Rightarrow> string \<Rightarrow> msg list \<times> exn option" where
  "gpsdio_sort strm field =
     (case put_all field strm [] of
        Inl e \<Rightarrow> ([], Some e)
      | Inr queue \<Rightarrow> get_all queue)"

text \<open>
  The order that the comparisons of a run without exception reveal: \<open>sle x y\<close> when the
  two pairs are equal, or \<open>x < y\<close> is defined and true. \<open>is_heap\<close> is the heap condition
  for this order, \<open>hole_inv heap p\<close> the heap condition everywhere but at position \<open>p\<close>,
  whose children are then bounded by its parent.
\<close>

definition item_eq :: "item \<Rightarrow> item \<Rightarrow> bool" where
  "item_eq x y = (py_eq (fst x) (fst y) \<and> dict_eq (snd x) (snd y))"

definition sle :: "item \<Rightarrow> item \<Rightarrow> bool" where
  "sle x y = (item_eq x y \<or> tuple_lt x y = Inr True)"

definition is_heap :: "item list \<Rightarrow> bool" where
  "is_heap heap = (\<forall>i<length heap. 0 < i \<longrightarrow> sle (heap ! ((i - 1) div 2)) (heap ! i))"

definition hole_inv :: "item list \<Rightarrow> nat \<Rightarrow> bool" where
  "hole_inv heap p =
     ((\<forall>i<length heap. 0 < i \<and> i \<noteq> p \<and> (i - 1) div 2 \<noteq> p \<longrightarrow>
          sle (heap ! ((i - 1) div 2)) (heap ! i)) \<and>
      (0 < p \<longrightarrow>
         (\<forall>c<length heap. 0 < c \<and> (c - 1) div 2 = p \<longrightarrow> sle (heap ! ((p - 1) div 2)) (heap ! c))))"

text \<open>The pairs that \<open>sort\<close> buffers for a stream.\<close>

fun items_of :: "string \<Rightarrow> msg list \<Rightarrow> item list" where
  "items_of field [] = []"
| "items_of field (m # ms) =
     (case map_of m field of
        None \<Rightarrow> items_of field ms
      | Some k \<Rightarrow> (k, m) # items_of field ms)"

section \<open>Dicts as association lists\<close>

lemma map_of_dict_set: "map_of (dict_set k v d) = (map_of d)(k \<mapsto> v)"
  by (induction d) auto


section \<open>Properties of the message stream\<close>

lemma next_good:
  "mode s = ''r'' \<Longrightarrow> \<not> closed s \<Longrightarrow> good imp (convert s) p \<Longrightarrow>
   stream_next imp (with_pending s (p # ps)) =
     (Returns (Some (decoded imp (convert s) p)), [], with_pending s ps)"
  by (auto simp: stream_next_def good_def decoded_def with_pending_def closed_def
           split: pull.splits sum.splits)

lemma next_malformed:
  "mode s = ''r'' \<Longrightarrow> \<not> closed s \<Longrightarrow> malformed imp (convert s) p e \<Longrightarrow>
   stream_next imp (with_pending s (p # ps)) =
     ((if skip_failures s then Returns None else Raises e), [e], with_pending s ps)"
  by (auto simp: stream_next_def malformed_def next_handler_def with_pending_def closed_def
           split: pull.splits sum.splits)

lemma next_exhausted:
  "mode s = ''r'' \<Longrightarrow> \<not> closed s \<Longrightarrow>
   stream_next imp (with_pending s []) = (Raises StopIteration, [], with_pending s [])"
  by (auto simp: stream_next_def next_handler_def with_pending_def closed_def)

lemma iterate_good:
  "mode s = ''r'' \<Longrightarrow> \<not> closed s \<Longrightarrow> list_all (good imp (convert s)) ps \<Longrightarrow>
   iterate imp (with_pending s (ps @ qs)) =
     (case iterate imp (with_pending s qs) of
        (xs, e, lg, s') \<Rightarrow> (map (Some \<circ> decoded imp (convert s)) ps @ xs, e, lg, s'))"
proof (induction ps)
  case Nil
  show ?case by (simp split: prod.splits)
next
  case (Cons p ps)
  then have g: "good imp (convert s) p" and gs: "list_all (good imp (convert s)) ps"
    by simp_all
  have "iterate imp (with_pending s ((p # ps) @ qs)) =
        (case iterate imp (with_pending s (ps @ qs)) of
           (xs, e, lg', s'') \<Rightarrow> (Some (decoded imp (convert s) p) # xs, e, lg', s''))"
    using next_good [OF Cons.prems(1,2) g, of "ps @ qs"]
    by (subst iterate.simps) simp
  also note Cons.IH [OF Cons.prems(1,2) gs]
  finally show ?case by (simp split: prod.splits)
qed


lemma with_pending_simps:
  "mode (with_pending s ps) = mode s"
  "convert (with_pending s ps) = convert s"
  "skip_failures (with_pending s ps) = skip_failures s"
  "closed (with_pending s ps) = closed s"
  "pending (stream (with_pending s ps)) = ps"
  "with_pending (with_pending s ps) qs = with_pending s qs"
  by (simp_all add: with_pending_def closed_def)

lemma with_pending_same: "pending (stream s) = ps \<Longrightarrow> with_pending s ps = s"
  by (auto simp: with_pending_def)

lemma iterate_exhausted:
  "mode s = ''r'' \<Longrightarrow> \<not> closed s \<Longrightarrow>
   iterate imp (with_pending s []) = ([], StopIteration, [], with_pending s [])"
  by (subst iterate.simps) (simp add: next_exhausted)

lemma iterate_all_good:
  "mode s = ''r'' \<Longrightarrow> \<not> closed s \<Longrightarrow> list_all (good imp (convert s)) ps \<Longrightarrow>
   iterate imp (with_pending s ps) =
     (map (Some \<circ> decoded imp (convert s)) ps, StopIteration, [], with_pending s [])"
  using iterate_good [of s imp ps "[]"] by (simp add: iterate_exhausted)


text \<open>
  C1. A read stream over a source of N well-formed records and one malformed record
  (its pull or its coercion raises an \<open>Exception\<close> other than StopIteration). With
  \<open>skip_failures\<close> set, iterating yields the N messages in order: the failed step logs
  the exception and returns \<open>None\<close>, no message, and the loop goes on to the end of the
  source. With \<open>skip_failures\<close> unset, the loop yields the messages before the malformed
  record and the exception reaches the caller; the stream is still open, and iterating it
  again yields the records after the malformed one.
\<close>

theorem skip_failures_policy:
  assumes rd: "mode s = ''r''" and op: "\<not> closed s"
    and src: "pending (stream s) = pre @ [b] @ post"
    and pre: "list_all (good imp (convert s)) pre"
    and post: "list_all (good imp (convert s)) post"
    and bad: "malformed imp (convert s) b e"
  shows "(skip_failures s \<longrightarrow>
            iterate imp s =
              (map (Some \<circ> decoded imp (convert s)) pre @ [None] @
               map (Some \<circ> decoded imp (convert s)) post,
               StopIteration, [e], with_pending s []) \<and>
            messages (fst (iterate imp s)) = map (decoded imp (convert s)) (pre @ post) \<and>
            length (messages (fst (iterate imp s))) = length pre + length post) \<and>
         (\<not> skip_failures s \<longrightarrow>
            iterate imp s = (map (Some \<circ> decoded imp (convert s)) pre, e, [e], with_pending s post) \<and>
            stream_next imp (with_pending s (b # post)) = (Raises e, [e], with_pending s post) \<and>
            \<not> closed (with_pending s post) \<and>
            iterate imp (with_pending s post) =
              (map (Some \<circ> decoded imp (convert s)) post, StopIteration, [], with_pending s []))"
proof -
  have s_eq: "s = with_pending s (pre @ b # post)"
    using src by (simp add: with_pending_same)
  have rest: "iterate imp (with_pending s post) =
      (map (Some \<circ> decoded imp (convert s)) post, StopIteration, [], with_pending s [])"
    using iterate_all_good [OF rd op post] .
  have step: "stream_next imp (with_pending s (b # post)) =
      ((if skip_failures s then Returns None else Raises e), [e], with_pending s post)"
    using next_malformed [OF rd op bad] .
  have at_bad: "iterate imp (with_pending s (b # post)) =
      (if skip_failures s
       then (None # map (Some \<circ> decoded imp (convert s)) post, StopIteration, [e], with_pending s [])
       else ([], e, [e], with_pending s post))"
    by (subst iterate.simps) (simp add: step rest)
  have whole: "iterate imp s =
      (if skip_failures s
       then (map (Some \<circ> decoded imp (convert s)) pre @
             None # map (Some \<circ> decoded imp (convert s)) post, StopIteration, [e], with_pending s [])
       else (map (Some \<circ> decoded imp (convert s)) pre, e, [e], with_pending s post))"
    by (subst s_eq) (simp add: iterate_good [OF rd op pre] at_bad)
  have somes: "messages (map (Some \<circ> f) xs @ ys) = map f xs @ messages ys"
    for f :: "pull \<Rightarrow> msg" and xs ys
    by (induction xs) simp_all
  show ?thesis
  proof (cases "skip_failures s")
    case True
    have it: "iterate imp s =
       (map (Some \<circ> decoded imp (convert s)) pre @
        None # map (Some \<circ> decoded imp (convert s)) post, StopIteration, [e], with_pending s [])"
      using whole True by simp
    have "messages (fst (iterate imp s)) = map (decoded imp (convert s)) (pre @ post)"
      unfolding it fst_conv using somes [of _ _ "[]"] by (simp add: somes)
    then show ?thesis using it True by simp
  next
    case False
    then show ?thesis
      using whole step rest op by (simp add: with_pending_simps)
  qed
qed

theorem skip_failures_policy_witness:
  "iterate [''mmsi'' \<mapsto> strict_int] (GPSDIOStream_init demo_codec ''r'' True True) =
     ([Some [(''mmsi'', PInt 1)], None, Some [(''mmsi'', PInt 2)]],
      StopIteration, [ValueError ''not an integer''],
      with_pending (GPSDIOStream_init demo_codec ''r'' True True) []) \<and>
   iterate [''mmsi'' \<mapsto> strict_int] (GPSDIOStream_init demo_codec ''r'' True False) =
     ([Some [(''mmsi'', PInt 1)]], ValueError ''not an integer'', [ValueError ''not an integer''],
      with_pending (GPSDIOStream_init demo_codec ''r'' True False) [Rec [(''mmsi'', PInt 2)]])"
  using skip_failures_policy [of "GPSDIOStream_init demo_codec ''r'' True True"
          "[Rec [(''mmsi'', PInt 1)]]" "Rec [(''mmsi'', PStr ''x'')]" "[Rec [(''mmsi'', PInt 2)]]"
          "[''mmsi'' \<mapsto> strict_int]" "ValueError ''not an integer''"]
        skip_failures_policy [of "GPSDIOStream_init demo_codec ''r'' True False"
          "[Rec [(''mmsi'', PInt 1)]]" "Rec [(''mmsi'', PStr ''x'')]" "[Rec [(''mmsi'', PInt 2)]]"
          "[''mmsi'' \<mapsto> strict_int]" "ValueError ''not an integer''"]
  by (simp add: GPSDIOStream_init_def demo_codec_def closed_def good_def decoded_def
        malformed_def strict_int_def)


text \<open>
  C5. When the pull from the codec raises StopIteration on an open read stream,
  \<open>__next__\<close> raises StopIteration and logs nothing, whatever \<open>skip_failures\<close> and
  \<open>convert\<close> are: the end of the stream is never swallowed.
\<close>

theorem end_of_stream_propagates:
  assumes "mode s = ''r''" and "\<not> closed s"
    and "fst (codec_next (stream s)) = Inl StopIteration"
  shows "stream_next imp s =
           (Raises StopIteration, [], s\<lparr>stream := snd (codec_next (stream s))\<rparr>)"
  using assms
  by (cases "codec_next (stream s)") (simp add: stream_next_def next_handler_def)

theorem end_of_stream_propagates_witness:
  "stream_next Map.empty (GPSDIOStream_init (demo_codec\<lparr>pending := []\<rparr>) ''r'' True True) =
     (Raises StopIteration, [], GPSDIOStream_init (demo_codec\<lparr>pending := []\<rparr>) ''r'' True True)
   \<and> stream_next Map.empty (GPSDIOStream_init (demo_codec\<lparr>pending := []\<rparr>) ''r'' True False) =
     (Raises StopIteration, [], GPSDIOStream_init (demo_codec\<lparr>pending := []\<rparr>) ''r'' True False)"
  using end_of_stream_propagates
          [of "GPSDIOStream_init (demo_codec\<lparr>pending := []\<rparr>) ''r'' True True" Map.empty]
        end_of_stream_propagates
          [of "GPSDIOStream_init (demo_codec\<lparr>pending := []\<rparr>) ''r'' True False" Map.empty]
  by (simp add: GPSDIOStream_init_def demo_codec_def closed_def)

text \<open>
  C6. \<open>write\<close> on a stream constructed with mode \<open>r\<close> raises the IOError "Stream not open
  for writing", and \<open>__next__\<close> on a stream constructed with mode \<open>w\<close> or \<open>a\<close> raises the
  IOError "Stream not open for reading", whatever the message, the codec, \<open>convert\<close> and
  \<open>skip_failures\<close> are; nothing is logged and the stream is unchanged. Neither operation
  changes the mode of a stream.
\<close>

theorem wrong_mode_fails:
  "stream_write out_tab (GPSDIOStream_init c ''r'' cv sk) m =
     (Raises (IOError ''Stream not open for writing''), [], GPSDIOStream_init c ''r'' cv sk)
   \<and> (md = ''w'' \<or> md = ''a'' \<longrightarrow>
        stream_next imp (GPSDIOStream_init c md cv sk) =
          (Raises (IOError ''Stream not open for reading''), [], GPSDIOStream_init c md cv sk))
   \<and> mode (snd (snd (stream_next imp s))) = mode s
   \<and> mode (snd (snd (stream_write out_tab s m))) = mode s"
proof -
  have w: "stream_write out_tab (GPSDIOStream_init c ''r'' cv sk) m =
     (Raises (IOError ''Stream not open for writing''), [], GPSDIOStream_init c ''r'' cv sk)"
    by (simp add: stream_write_def GPSDIOStream_init_def)
  have n: "md = ''w'' \<or> md = ''a'' \<Longrightarrow>
        stream_next imp (GPSDIOStream_init c md cv sk) =
          (Raises (IOError ''Stream not open for reading''), [], GPSDIOStream_init c md cv sk)"
    by (auto simp: stream_next_def GPSDIOStream_init_def)
  have mn: "mode (snd (snd (stream_next imp s))) = mode s"
    by (simp add: stream_next_def next_handler_def split: prod.splits sum.splits)
  have mw: "mode (snd (snd (stream_write out_tab s m))) = mode s"
    by (simp add: stream_write_def write_handler_def split: prod.splits sum.splits option.splits)
  show ?thesis using w n mn mw by blast
qed

theorem wrong_mode_fails_witness:
  "stream_write Map.empty (GPSDIOStream_init demo_codec ''r'' True True) [(''mmsi'', PInt 1)] =
     (Raises (IOError ''Stream not open for writing''), [],
      GPSDIOStream_init demo_codec ''r'' True True)
   \<and> stream_next Map.empty (GPSDIOStream_init demo_codec ''w'' True True) =
     (Raises (IOError ''Stream not open for reading''), [],
      GPSDIOStream_init demo_codec ''w'' True True)
   \<and> stream_next Map.empty (GPSDIOStream_init demo_codec ''a'' True True) =
     (Raises (IOError ''Stream not open for reading''), [],
      GPSDIOStream_init demo_codec ''a'' True True)"
  using wrong_mode_fails [of Map.empty demo_codec True True "[(''mmsi'', PInt 1)]" "''w''" Map.empty]
        wrong_mode_fails [of Map.empty demo_codec True True "[(''mmsi'', PInt 1)]" "''a''" Map.empty]
  by simp

section \<open>Properties of the open factory\<close>

lemma suffix_gz: "suffix ''.gz'' ''types.json.gz''" "\<not> suffix ''.gz'' ''types.json''"
  by (simp_all add: suffix_to_prefix)

text \<open>
  C9 (as amended). A target opened without a compression argument. When the target is a
  file-like object (an object passed in, or standard input or output for the path \<open>-\<close>),
  nothing is detected and the raw handle goes unchanged to the container driver. When it
  is a path, \<open>detect_compression_type\<close> is called on it: if that raises ValueError or
  returns nothing, the raw path goes unchanged to the container driver and \<open>open\<close> does
  not fail for it; if it returns a driver, the container driver gets the handle that this
  driver makes of the path.
\<close>

theorem open_without_compression:
  assumes nc: "given compression = None"
  shows "(stdio_target path0 md = FileLike f \<or>
          stdio_target path0 md = Path p \<and>
            (detect_compression_type drv p = Inl (ValueError why) \<or>
             detect_compression_type drv p = Inr None) \<longrightarrow>
            gpsdio_open drv path0 md dmode cmode compression driver do co cv sk =
              (case choose_io_driver drv driver (target_name (stdio_target path0 md)) of
                 Inl e \<Rightarrow> Inl e
               | Inr io_driver \<Rightarrow>
                   open_stream io_driver (Raw (stdio_target path0 md)) md
                     (mode_or dmode md) (options_or do) cv sk)) \<and>
         (stdio_target path0 md = Path p \<and> detect_compression_type drv p = Inr (Some cd) \<longrightarrow>
            gpsdio_open drv path0 md dmode cmode compression driver do co cv sk =
              (case choose_io_driver drv driver (Some p) of
                 Inl e \<Rightarrow> Inl e
               | Inr io_driver \<Rightarrow>
                   (case cd (Path p) (mode_or cmode md) (options_or co) of
                      Inl e \<Rightarrow> Inl e
                    | Inr h \<Rightarrow>
                        open_stream io_driver (Wrapped h) md (mode_or dmode md) (options_or do) cv sk)))"
  using nc
  by (auto simp: gpsdio_open_def choose_drivers_def make_c_stream_def split: sum.splits)

theorem open_without_compression_witness:
  "gpsdio_open demo_drivers (FileLike (FileObj (Some ''types.json.gz''))) ''r'' None None None None None None True False =
     open_stream json_driver (Raw (FileLike (FileObj (Some ''types.json.gz'')))) ''r'' ''r'' [] True False
   \<and> gpsdio_open demo_drivers (Path ''types.json'') ''r'' None None None None None None True False =
     open_stream json_driver (Raw (Path ''types.json'')) ''r'' ''r'' [] True False
   \<and> gpsdio_open demo_drivers (Path ''types.json.gz'') ''r'' None None None None None None True False =
     open_stream json_driver (Wrapped ''gzip'') ''r'' ''r'' [] True False"
  using open_without_compression [of None "FileLike (FileObj (Some ''types.json.gz''))" "''r''"
          "FileObj (Some ''types.json.gz'')" "''types.json''" demo_drivers "''no compression driver''"
          None None None None None True False gzip_driver]
        open_without_compression [of None "Path ''types.json''" "''r''"
          "FileObj None" "''types.json''" demo_drivers "''no compression driver''"
          None None None None None True False gzip_driver]
        open_without_compression [of None "Path ''types.json.gz''" "''r''"
          "FileObj None" "''types.json.gz''" demo_drivers "''no compression driver''"
          None None None None None True False gzip_driver]
  by (simp add: stdio_target_def demo_drivers_def suffix_gz choose_io_driver_def mode_or_def
        options_or_def gzip_driver_def suffix_to_prefix)


text \<open>
  C9 as stated fails for file-like targets: the compression of a file-like object is not
  detected from the target. The detection recognises the name \<open>types.json.gz\<close> as gzip,
  and a file-like object of that name, opened without a compression argument, is still
  handed raw to the container driver.
\<close>

theorem open_file_like_counterexample:
  "detect_compression_type demo_drivers ''types.json.gz'' = Inr (Some gzip_driver) \<and>
   name_attr (FileObj (Some ''types.json.gz'')) = Some ''types.json.gz'' \<and>
   gpsdio_open demo_drivers (FileLike (FileObj (Some ''types.json.gz''))) ''r'' None None None None None None True False =
     Inr (GPSDIOStream_init
            \<lparr>pending = [Rec [(''handed'', PStr ''raw'')]], written = [],
             rejects = (\<lambda>_. None), c_closed = False\<rparr> ''r'' True False)"
  by (simp add: gpsdio_open_def stdio_target_def choose_drivers_def choose_io_driver_def
        demo_drivers_def make_c_stream_def open_stream_def json_driver_def mode_or_def
        options_or_def suffix_to_prefix)


section \<open>Properties of filter\<close>

lemma passes_true_holds:
  "passes ev gs exprs m = Inr True \<Longrightarrow> list_all (holds ev gs m) exprs"
  by (induction exprs) (auto simp: holds_def split: sum.splits exn.splits if_splits)

lemma passes_name_error:
  "list_all (holds ev gs m) pre \<Longrightarrow> ev e gs (local_scope m) = Inl (NameError n) \<Longrightarrow>
   passes ev gs (pre @ e # post) m = Inr False"
  by (induction pre) (auto simp: holds_def split: sum.splits)

lemma filter_loop_yields_holds:
  "m \<in> set (fst (filter_loop ev gs exprs strm)) \<Longrightarrow> list_all (holds ev gs m) exprs"
proof (induction strm)
  case Nil
  then show ?case by simp
next
  case (Cons x xs)
  show ?case
  proof (cases "passes ev gs exprs x")
    case (Inl e)
    with Cons.prems show ?thesis by simp
  next
    case (Inr ok)
    obtain out err where r: "filter_loop ev gs exprs xs = (out, err)"
      by (cases "filter_loop ev gs exprs xs")
    from Cons.prems Inr r have "m \<in> set (if ok then x # out else out)" by simp
    then consider "ok" "m = x" | "m \<in> set out" by (auto split: if_splits)
    then show ?thesis
    proof cases
      case 1
      with Inr show ?thesis by (simp add: passes_true_holds)
    next
      case 2
      with Cons.IH r show ?thesis by simp
    qed
  qed
qed

lemma local_scope_field:
  "map_of (local_scope m) n = map_option Val (map_of m n)" if "n \<noteq> ''msg''"
proof -
  have "map_of (map (\<lambda>(k, v). (k, Val v)) m) n = map_option Val (map_of m n)"
    by (induction m) auto
  then show ?thesis
    using that by (simp add: local_scope_def map_of_dict_set)
qed


lemma map_of_filter_keys:
  "map_of (filter (\<lambda>(k, v). Q k) xs) n = (if Q n then map_of xs n else None)"
  by (induction xs) auto

lemma global_scope_unbound:
  assumes "n \<notin> fst ` set module_globals" and "n \<notin> fst ` set py_builtins"
    and "n \<noteq> ''builtins''" and "n \<noteq> ''__builtins__''"
  shows "map_of (gvars (make_global_scope module_globals py_builtins)) n = None"
    and "map_of (gbuiltins (make_global_scope module_globals py_builtins)) n = None"
  using assms
  by (simp_all add: make_global_scope_def map_of_dict_set map_of_filter_keys map_of_eq_None_iff)

lemma passes_mmsi:
  assumes "''mmsi'' \<notin> fst ` set module_globals" and "''mmsi'' \<notin> fst ` set py_builtins"
  shows "passes py_eval (make_global_scope module_globals py_builtins)
           [Eq (Name ''mmsi'') (Const (PInt i))] m = Inr (mmsi_is i m)"
  using global_scope_unbound [OF assms]
  by (simp add: local_scope_field mmsi_is_def split: option.splits)

lemma filter_loop_mmsi:
  assumes "''mmsi'' \<notin> fst ` set module_globals" and "''mmsi'' \<notin> fst ` set py_builtins"
  shows "filter_loop py_eval (make_global_scope module_globals py_builtins)
           [Eq (Name ''mmsi'') (Const (PInt i))] strm = (filter (mmsi_is i) strm, None)"
  by (induction strm) (simp_all add: passes_mmsi [OF assms] del: passes.simps)

text \<open>
  C7 (as amended). A message that \<open>filter\<close> yields is a message of the source for which
  every expression evaluates to a true value. An expression whose evaluation raises
  NameError (a name bound neither by the message nor in the global scope nor among the
  builtins) counts as false: the message is left out without an error, and the
  expressions after it are not evaluated, whatever they would do. With the single
  expression \<open>mmsi == 366268061\<close>, where \<open>mmsi\<close> is no global of the module and no builtin,
  \<open>filter\<close> yields exactly the messages whose \<open>mmsi\<close> equals 366268061, in order, and ends
  without an error; messages without \<open>mmsi\<close> are left out.
\<close>

theorem filter_semantics:
  "(m \<in> set (fst (gpsdio_filter ev module_globals py_builtins expressions strm)) \<longrightarrow>
      m \<in> set strm \<and>
      list_all (holds ev (make_global_scope module_globals py_builtins) m) (exprs_of expressions)) \<and>
   (list_all (holds ev gs m) pre \<and> ev e gs (local_scope m) = Inl (NameError n) \<longrightarrow>
      passes ev gs (pre @ e # post) m = Inr False \<and>
      filter_loop ev gs (pre @ e # post) (m # ms) = filter_loop ev gs (pre @ e # post) ms) \<and>
   (''mmsi'' \<notin> fst ` set module_globals \<and> ''mmsi'' \<notin> fst ` set py_builtins \<longrightarrow>
      gpsdio_filter py_eval module_globals py_builtins
        (Many [Eq (Name ''mmsi'') (Const (PInt 366268061))]) strm =
        (filter (mmsi_is 366268061) strm, None))"
proof -
  have sub: "m \<in> set (fst (filter_loop ev g xs strm)) \<Longrightarrow> m \<in> set strm" for g xs
    by (induction strm) (auto split: sum.splits prod.splits if_splits)
  have a: "m \<in> set (fst (gpsdio_filter ev module_globals py_builtins expressions strm)) \<Longrightarrow>
      m \<in> set strm \<and>
      list_all (holds ev (make_global_scope module_globals py_builtins) m) (exprs_of expressions)"
    unfolding gpsdio_filter_def exprs_of_def Let_def
    using filter_loop_yields_holds sub by blast
  have b: "list_all (holds ev gs m) pre \<and> ev e gs (local_scope m) = Inl (NameError n) \<Longrightarrow>
      passes ev gs (pre @ e # post) m = Inr False \<and>
      filter_loop ev gs (pre @ e # post) (m # ms) = filter_loop ev gs (pre @ e # post) ms"
    using passes_name_error [of ev gs m pre e n post] by (simp split: prod.splits)
  have c: "''mmsi'' \<notin> fst ` set module_globals \<and> ''mmsi'' \<notin> fst ` set py_builtins \<Longrightarrow>
      gpsdio_filter py_eval module_globals py_builtins
        (Many [Eq (Name ''mmsi'') (Const (PInt 366268061))]) strm =
        (filter (mmsi_is 366268061) strm, None)"
    by (simp add: gpsdio_filter_def filter_loop_mmsi)
  show ?thesis using a b c by blast
qed

theorem filter_semantics_witness:
  "gpsdio_filter py_eval core_globals some_builtins
     (Many [Eq (Name ''mmsi'') (Const (PInt 366268061))]) demo_stream =
     ([[(''mmsi'', PInt 366268061), (''lat'', PInt 10)]], None)
   \<and> passes py_eval (make_global_scope core_globals some_builtins)
       ([Eq (Name ''lat'') (Const (PInt 20))] @ Name ''mmsi'' # [Name ''eval''])
       [(''lat'', PInt 20)] = Inr False
   \<and> list_all (holds py_eval (make_global_scope core_globals some_builtins)
                [(''mmsi'', PInt 366268061), (''lat'', PInt 10)])
        (exprs_of (Many [Eq (Name ''mmsi'') (Const (PInt 366268061))]))"
  using filter_semantics [where m = "[(''mmsi'', PInt 366268061), (''lat'', PInt 10)]"
          and ev = py_eval and module_globals = core_globals and py_builtins = some_builtins
          and expressions = "Many [Eq (Name ''mmsi'') (Const (PInt 366268061))]"
          and strm = demo_stream]
        filter_semantics [where m = "[(''lat'', PInt 20)]"
          and ev = py_eval and module_globals = core_globals and py_builtins = some_builtins
          and gs = "make_global_scope core_globals some_builtins"
          and pre = "[Eq (Name ''lat'') (Const (PInt 20))]" and e = "Name ''mmsi''"
          and n = "''mmsi''" and post = "[Name ''eval'']"]
  by (simp add: core_globals_def some_builtins_def demo_stream_def mmsi_is_def py_eq_def
        holds_def local_scope_def make_global_scope_def scope_blacklist_def)


text \<open>
  C7 as stated fails for a field whose name is bound outside the message. \<open>type\<close> is a
  field of the schema and a builtin of Python: for a message without the field \<open>type\<close>
  the expression \<open>type != 5\<close> compares the builtin with 5, is true, and the message is
  yielded.
\<close>

theorem filter_absent_field_counterexample:
  "map_of [(''mmsi'', PInt 366268061)] ''type'' = None \<and>
   gpsdio_filter py_eval core_globals some_builtins
     (Many [NotEq (Name ''type'') (Const (PInt 5))]) [[(''mmsi'', PInt 366268061)]] =
     ([[(''mmsi'', PInt 366268061)]], None)"
  by (simp add: gpsdio_filter_def core_globals_def some_builtins_def local_scope_def
        make_global_scope_def scope_blacklist_def)


section \<open>Properties of the schema engine\<close>

lemma sub_name_absent:
  assumes "no_sub_name fdefs" and "map_of fdefs fld = Some fd"
  shows "sub_name fd fld = Inr fld"
proof -
  have "(fld, fd) \<in> set fdefs" using assms(2) by (rule map_of_SomeD)
  then have "map_of fd ''sub_name'' = None"
    using assms(1) by (auto simp: no_sub_name_def list_all_iff)
  then show ?thesis by (simp add: sub_name_def)
qed

lemma build_definition_plain:
  assumes "no_sub_name fdefs" and "list_all (\<lambda>f. f \<in> set (map fst fdefs)) mfields"
  shows "build_definition fdefs mfields d = Inr (plain_definition fdefs d mfields)"
  using assms(2)
proof (induction mfields arbitrary: d)
  case Nil
  show ?case by (simp add: plain_definition_def)
next
  case (Cons f fs)
  then have "f \<in> fst ` set fdefs" by simp
  then obtain fd where fd: "map_of fdefs f = Some fd"
    by (metis map_of_eq_None_iff not_Some_eq)
  have rest: "list_all (\<lambda>f. f \<in> set (map fst fdefs)) fs" using Cons.prems by simp
  show ?case
    using fd sub_name_absent [OF assms(1) fd] Cons.IH [OF rest]
    by (simp add: plain_definition_def)
qed

lemma map_of_plain_definition:
  "map_of (plain_definition fdefs d mfields) k =
     (if k \<in> set mfields then Some (the (map_of fdefs k)) else map_of d k)"
  unfolding plain_definition_def
  by (induction mfields arbitrary: d rule: rev_induct) (auto simp: map_of_dict_set)

lemma build_types_plain:
  assumes "no_sub_name fdefs"
    and "list_all (\<lambda>(t, fs). list_all (\<lambda>f. f \<in> set (map fst fdefs)) fs) fbt"
    and "distinct (map fst fbt)"
  shows "\<exists>out'. build_types fdefs fbt out = Inr out' \<and>
           (\<forall>t. map_of out' t =
                 (case map_of fbt t of
                    None \<Rightarrow> map_of out t
                  | Some fs \<Rightarrow> Some (plain_definition fdefs [] fs)))"
  using assms(2,3)
proof (induction fbt arbitrary: out)
  case Nil
  show ?case by simp
next
  case (Cons p rest)
  obtain t fs where p: "p = (t, fs)" by (cases p)
  have fs: "list_all (\<lambda>f. f \<in> set (map fst fdefs)) fs"
    and rest: "list_all (\<lambda>(t, fs). list_all (\<lambda>f. f \<in> set (map fst fdefs)) fs) rest"
    and d: "distinct (map fst rest)" and t: "t \<notin> fst ` set rest"
    using Cons.prems by (simp_all add: p)
  from Cons.IH [OF rest d, of "dict_set t (plain_definition fdefs [] fs) out"]
  obtain out' where o: "build_types fdefs rest (dict_set t (plain_definition fdefs [] fs) out) = Inr out'"
    and m: "\<And>t'. map_of out' t' =
                 (case map_of rest t' of
                    None \<Rightarrow> map_of (dict_set t (plain_definition fdefs [] fs) out) t'
                  | Some fs' \<Rightarrow> Some (plain_definition fdefs [] fs'))"
    by blast
  have none: "map_of rest t = None" using t by (simp add: map_of_eq_None_iff)
  have "build_types fdefs (p # rest) out = Inr out'"
    using o by (simp add: p build_definition_plain [OF assms(1) fs])
  moreover have "map_of out' t' =
                 (case map_of (p # rest) t' of
                    None \<Rightarrow> map_of out t'
                  | Some fs' \<Rightarrow> Some (plain_definition fdefs [] fs'))" for t'
    using m [of t'] none by (auto simp: p map_of_dict_set split: option.splits)
  ultimately show ?case by blast
qed


lemma FIELDS_no_sub_name: "no_sub_name FIELDS"
  by (simp add: no_sub_name_def FIELDS_def)

lemma FIELDS_keys: "map fst FIELDS =
    [''type'', ''repeat'', ''mmsi'', ''status'', ''turn'', ''speed'', ''accuracy'',
     ''lon'', ''lat'', ''course'', ''heading'', ''second'', ''maneuver'', ''raim'',
     ''regional'', ''radio'', ''year'', ''month'', ''day'', ''hour'', ''minute'',
     ''epfd'', ''ais_version'', ''imo'', ''callsign'', ''shiptype'', ''to_bow'',
     ''to_stern'', ''to_port'', ''to_starboard'', ''draught'', ''dte'', ''seqno'',
     ''dest_mmsi'', ''retransmit'', ''dac'', ''fid'', ''data'', ''mmsi1'', ''mmsiseq1'',
     ''mmsi2'', ''mmsiseq2'', ''mmsi3'', ''mmsiseq3'', ''mmsi4'', ''mmsiseq4'', ''alt'',
     ''speed9'', ''assigned'', ''text'', ''type1_1'', ''offset1_1'', ''offset1_2'',
     ''offset2_1'', ''type1_2'', ''type2_1'', ''offset1'', ''offset2'', ''offset3'',
     ''offset4'', ''increment1'', ''increment2'', ''increment3'', ''increment4'',
     ''spare'', ''cs'', ''display'', ''dsc'', ''band'', ''msg22'', ''number1'',
     ''number2'', ''number3'', ''number4'', ''timeout1'', ''timeout2'', ''timeout3'',
     ''timeout4'', ''aid_type'', ''name_extension'', ''txrx'', ''power'', ''ne_lon'',
     ''ne_lat'', ''sw_lon'', ''sw_lat'', ''dest1'', ''dest2'', ''band_a'', ''band_b'',
     ''zonesize'', ''station_type'', ''ship_type'', ''interval'', ''quiet'', ''partno'',
     ''vendorid'', ''model'', ''serial'', ''mothership_mmsi'', ''addressed'',
     ''structured'', ''app_id'', ''gnss'', ''destination'', ''shipname'', ''reserved'',
     ''name'', ''off_position'', ''virtual_aid'', ''channel_a'', ''channel_b'',
     ''timestamp'']"
  by (simp add: FIELDS_def)

lemma FIELDS_distinct: "distinct (map fst FIELDS)"
  unfolding FIELDS_keys by simp

lemma FIELDS_speed9:
  "map_of FIELDS ''speed9'' =
     Some [(''validate'', Validator (IntRange [0, 1023])),
           (''units'', Value (PStr ''knots'')),
           (''description'', Value (PStr ''Broadcast by search-and-rescue aircraft.  Special value 1023 indicates speed not available.'')),
           (''default'', Value (PInt 1023)),
           (''name'', Value (PStr ''speed''))]"
  unfolding map_of_eq_Some_iff [OF FIELDS_distinct] by (simp add: FIELDS_def)

lemma FIELDS_BY_TYPE_distinct: "distinct (map fst FIELDS_BY_TYPE)"
  by (simp add: FIELDS_BY_TYPE_def)

lemma FIELDS_BY_TYPE_9:
  "map_of FIELDS_BY_TYPE 9 =
     Some [''accuracy'', ''alt'', ''assigned'', ''course'', ''destination'', ''draught'',
           ''dte'', ''lat'', ''lon'', ''minute'', ''mmsi'', ''radio'', ''raim'',
           ''regional'', ''repeat'', ''second'', ''speed9'', ''type'', ''timestamp'']"
  by (simp add: FIELDS_BY_TYPE_def)


lemma FIELDS_BY_TYPE_listed:
  "list_all (\<lambda>(t, fs). list_all (\<lambda>f. f \<in> set (map fst FIELDS)) fs) FIELDS_BY_TYPE"
  unfolding FIELDS_keys by (simp add: FIELDS_BY_TYPE_def)

text \<open>
  C2. \<open>build_schema\<close> reads the alias of a field under the key \<open>sub_name\<close>, while the one
  alias of the built-in table, that of \<open>speed9\<close>, is written under the key \<open>name\<close> (the
  key that the module's docstring documents). On the built-in tables
  (\<open>build_schema(extensions=False)\<close>) the build succeeds, and the schema of type 9 holds
  the definition of \<open>speed9\<close>, which carries \<open>name = speed\<close>, under the key \<open>speed9\<close>; it has
  no key \<open>speed\<close>.
\<close>

theorem build_schema_speed9_not_aliased:
  "\<exists>out d fd.
     build_schema ext_by_type ext_fields None None False = Inr out \<and>
     map_of out 9 = Some d \<and>
     map_of FIELDS ''speed9'' = Some fd \<and>
     map_of fd ''name'' = Some (Value (PStr ''speed'')) \<and>
     map_of d ''speed9'' = Some fd \<and>
     map_of d ''speed'' = None"
proof -
  obtain out where out: "build_types FIELDS FIELDS_BY_TYPE [] = Inr out"
    and types: "\<And>t. map_of out t =
                 (case map_of FIELDS_BY_TYPE t of
                    None \<Rightarrow> map_of [] t
                  | Some fs \<Rightarrow> Some (plain_definition FIELDS [] fs))"
    using build_types_plain [OF FIELDS_no_sub_name FIELDS_BY_TYPE_listed FIELDS_BY_TYPE_distinct, of "[]"]
    by blast
  let ?fs = "[''accuracy'', ''alt'', ''assigned'', ''course'', ''destination'', ''draught'',
           ''dte'', ''lat'', ''lon'', ''minute'', ''mmsi'', ''radio'', ''raim'',
           ''regional'', ''repeat'', ''second'', ''speed9'', ''type'', ''timestamp'']"
  let ?d = "plain_definition FIELDS [] ?fs"
  have built: "build_schema ext_by_type ext_fields None None False = Inr out"
    using out by (simp add: build_schema_def)
  have nine: "map_of out 9 = Some ?d"
    using types [of 9] by (simp add: FIELDS_BY_TYPE_9)
  have key9: "map_of ?d ''speed9'' = map_of FIELDS ''speed9''"
    by (simp add: map_of_plain_definition FIELDS_speed9)
  have key: "map_of ?d ''speed'' = None"
    by (simp add: map_of_plain_definition)
  show ?thesis
    using built nine key9 key FIELDS_speed9 by simp
qed

text \<open>
  C3. \<open>merge_fields_by_type\<close> chains the field tuples and never builds a set (its
  docstring says it does): a field listed for type 1 in both tables is listed twice in
  the merged tuple of type 1.
\<close>

theorem merge_fields_by_type_keeps_duplicates:
  "merge_fields_by_type [[(1, [''mmsi'', ''lat''])], [(1, [''mmsi'', ''lon''])]] =
     [(1, [''mmsi'', ''lon'', ''mmsi'', ''lat''])]
   \<and> count_list
         (the (map_of (merge_fields_by_type [[(1, [''mmsi'', ''lat''])], [(1, [''mmsi'', ''lon''])]]) 1))
         ''mmsi'' = 2"
  by (simp add: merge_fields_by_type_def)

section \<open>Properties of sort\<close>

subsection \<open>Equality and order of the buffered pairs\<close>

lemma py_eq_refl: "py_eq a a"
  by (cases a) (simp_all add: py_eq_def)

lemma py_eq_sym: "py_eq a b \<Longrightarrow> py_eq b a"
  by (auto simp: py_eq_def split: option.splits)

lemma py_eq_trans: "py_eq a b \<Longrightarrow> py_eq b c \<Longrightarrow> py_eq a c"
  by (auto simp: py_eq_def split: option.splits)

lemma dict_eq_iff: "dict_eq m1 m2 \<longleftrightarrow> (\<forall>k. rel_option py_eq (map_of m1 k) (map_of m2 k))"
proof
  assume d: "dict_eq m1 m2"
  show "\<forall>k. rel_option py_eq (map_of m1 k) (map_of m2 k)"
  proof
    fix k
    show "rel_option py_eq (map_of m1 k) (map_of m2 k)"
    proof (cases "k \<in> set (map fst m1 @ map fst m2)")
      case True
      with d show ?thesis by (simp add: dict_eq_def list_all_iff)
    next
      case False
      then have "map_of m1 k = None" "map_of m2 k = None"
        by (simp_all add: map_of_eq_None_iff)
      then show ?thesis by simp
    qed
  qed
next
  assume "\<forall>k. rel_option py_eq (map_of m1 k) (map_of m2 k)"
  then show "dict_eq m1 m2" by (simp add: dict_eq_def list_all_iff)
qed

lemma dict_eq_refl: "dict_eq m m"
  unfolding dict_eq_iff by (simp add: option.rel_refl py_eq_refl)

lemma dict_eq_sym: "dict_eq m1 m2 \<Longrightarrow> dict_eq m2 m1"
  unfolding dict_eq_iff
  by (metis option.rel_sel option.rel_cases py_eq_sym option.sel option.simps(3) option.rel_inject(2) option.rel_distinct)

lemma dict_eq_trans: "dict_eq m1 m2 \<Longrightarrow> dict_eq m2 m3 \<Longrightarrow> dict_eq m1 m3"
  unfolding dict_eq_iff
proof
  fix k
  assume a: "\<forall>k. rel_option py_eq (map_of m1 k) (map_of m2 k)"
    and b: "\<forall>k. rel_option py_eq (map_of m2 k) (map_of m3 k)"
  from a b have "rel_option py_eq (map_of m1 k) (map_of m2 k)" "rel_option py_eq (map_of m2 k) (map_of m3 k)"
    by simp_all
  then show "rel_option py_eq (map_of m1 k) (map_of m3 k)"
    by (cases "map_of m1 k"; cases "map_of m2 k"; cases "map_of m3 k") (auto intro: py_eq_trans)
qed

lemma item_eq_refl: "item_eq x x"
  by (simp add: item_eq_def py_eq_refl dict_eq_refl)

lemma item_eq_sym: "item_eq x y \<Longrightarrow> item_eq y x"
  by (simp add: item_eq_def py_eq_sym dict_eq_sym)

lemma item_eq_trans: "item_eq x y \<Longrightarrow> item_eq y z \<Longrightarrow> item_eq x z"
  by (auto simp: item_eq_def intro: py_eq_trans dict_eq_trans)


lemma py_lt_true:
  "py_lt a b = Inr True \<Longrightarrow> \<not> py_eq a b"
  by (auto simp: py_lt_def py_eq_def split: option.splits pyval.splits)

lemma py_lt_false_flip:
  "py_lt a b = Inr False \<Longrightarrow> \<not> py_eq a b \<Longrightarrow> py_lt b a = Inr True"
  by (auto simp: py_lt_def py_eq_def split: option.splits pyval.splits)

lemma py_lt_trans:
  "py_lt a b = Inr True \<Longrightarrow> py_lt b c = Inr True \<Longrightarrow> py_lt a c = Inr True"
  by (auto simp: py_lt_def split: option.splits pyval.splits)

lemma py_lt_eq_left:
  "py_eq a b \<Longrightarrow> py_lt b c = Inr True \<Longrightarrow> py_lt a c = Inr True"
  by (auto simp: py_lt_def py_eq_def split: option.splits pyval.splits)

lemma py_lt_eq_right:
  "py_lt a b = Inr True \<Longrightarrow> py_eq b c \<Longrightarrow> py_lt a c = Inr True"
  by (auto simp: py_lt_def py_eq_def split: option.splits pyval.splits)

lemma tuple_lt_true_iff:
  "tuple_lt x y = Inr True \<longleftrightarrow> py_lt (fst x) (fst y) = Inr True"
  by (cases x; cases y) (auto dest: py_lt_true)

lemma sle_of_true: "tuple_lt x y = Inr True \<Longrightarrow> sle x y"
  by (simp add: sle_def)

lemma sle_of_false: "tuple_lt x y = Inr False \<Longrightarrow> sle y x"
proof (cases x; cases y)
  fix k1 m1 k2 m2
  assume x: "x = (k1, m1)" and y: "y = (k2, m2)" and f: "tuple_lt x y = Inr False"
  show "sle y x"
  proof (cases "py_eq k1 k2")
    case True
    with f x y have "dict_eq m1 m2" by (simp split: if_splits)
    with True have "item_eq x y" by (simp add: item_eq_def x y)
    then show ?thesis by (simp add: sle_def item_eq_sym)
  next
    case False
    with f x y have "py_lt k1 k2 = Inr False" by simp
    with False have "py_lt k2 k1 = Inr True" by (rule py_lt_false_flip [rotated])
    then have "tuple_lt y x = Inr True"
      unfolding tuple_lt_true_iff by (simp add: x y)
    then show ?thesis by (rule sle_of_true)
  qed
qed

lemma sle_refl: "sle x x"
  by (simp add: sle_def item_eq_refl)

lemma sle_trans: "sle x y \<Longrightarrow> sle y z \<Longrightarrow> sle x z"
  unfolding sle_def tuple_lt_true_iff
  by (auto simp: item_eq_def intro: py_eq_trans dict_eq_trans py_lt_trans py_lt_eq_left py_lt_eq_right)

lemma sle_tie: "sle x y \<Longrightarrow> py_eq (fst x) (fst y) \<Longrightarrow> dict_eq (snd x) (snd y)"
  unfolding sle_def tuple_lt_true_iff
  by (auto simp: item_eq_def dest: py_lt_true)


end
